theory Spec2Isabelle
  imports Main "HOL-Library.Word" "HOL-Library.Sublist"
begin

section \<open>The attestation demo server (attest/demo/server.go, attest/demo/rpc.go)\<close>

text \<open>
  A Go byte slice is a list of 8-bit words. A nil slice and an empty slice both have
  length 0 and \<^verbatim>\<open>bytes.Equal\<close> does not tell them apart, so both are the empty list.
\<close>

type_synonym bytes = "8 word list"

text \<open>A Go \<^verbatim>\<open>error\<close> value returned by a library call, kept as its message.\<close>

type_synonym goerror = string

subsection \<open>Data\<close>

text \<open>
  \<^verbatim>\<open>attest.AttestationParameters\<close>, with the fields the demo reads
  (\<^verbatim>\<open>runGetInfo\<close> prints all five).
\<close>

record AttestationParameters =
  Public :: bytes
  UseTCSDActivationFormat :: bool
  CreateData :: bytes
  CreateAttestation :: bytes
  CreateSignature :: bytes

text \<open>\<^verbatim>\<open>rsa.PublicKey\<close>: modulus and public exponent.\<close>

record rsaPublicKey =
  modulusN :: int
  exponentE :: int

text \<open>The message \<^verbatim>\<open>QuoteVerificationResults\<close> of the verifier's proto file.\<close>

record QuoteVerificationResults =
  QSucceeded :: bool
  SignatureMismatch :: bool
  PcrDigest :: bytes
  PcrDigestMismatch :: bool
  NonceMismatch :: bool

text \<open>
  The struct \<^verbatim>\<open>clientInfo\<close>: one per AIK. The pointers \<^verbatim>\<open>EK\<close> and
  \<^verbatim>\<open>AttestResults\<close> are options, nil being \<open>None\<close>.
\<close>

record clientInfo =
  AIK :: AttestationParameters
  EK :: "rsaPublicKey option"
  ActivationSecret :: bytes
  Activated :: bool
  Nonce :: bytes
  AttestResults :: "QuoteVerificationResults option"

text \<open>
  The struct \<^verbatim>\<open>server\<close>. Every handler takes \<^verbatim>\<open>lock\<close> on entry and releases it
  by \<^verbatim>\<open>defer\<close>, so a handler is one transition of \<^verbatim>\<open>state\<close>; the lock and the
  embedded \<^verbatim>\<open>http.Server\<close> carry no protocol state and are left out.
\<close>

record server =
  state :: "clientInfo list"

text \<open>\<^verbatim>\<open>attest.Quote\<close>, with the two fields the server reads.\<close>

record attestQuote =
  Quote :: bytes
  Signature :: bytes

text \<open>
  The struct \<^verbatim>\<open>requestData\<close> of rpc.go. \<^verbatim>\<open>attest.TPMVersion\<close> is a small unsigned
  integer; the Go map \<^verbatim>\<open>PCRs\<close> is a partial function.
\<close>

record requestData =
  TPMVersion :: nat
  reqAIK :: AttestationParameters
  EKPem :: bytes
  DecryptedCredential :: bytes
  reqQuote :: attestQuote
  PCRs :: "32 word \<rightharpoonup> bytes"

text \<open>
  Modelled from the spec: the type \<^verbatim>\<open>attest.EncryptedCredential\<close> is declared outside
  the listed sources; the spec calls it "an encrypted credential blob", so it is a byte
  string here. The server only passes it from \<^verbatim>\<open>Generate\<close> to the response.
\<close>

type_synonym EncryptedCredential = bytes

text \<open>The struct \<^verbatim>\<open>responseData\<close> of rpc.go.\<close>

record responseData =
  ActivationChallenge :: EncryptedCredential
  respNonce :: bytes

text \<open>The struct \<^verbatim>\<open>attest.ActivationParameters\<close> as the server fills it.\<close>

record ActivationParameters =
  apTPMVersion :: nat
  apEK :: rsaPublicKey
  apAIK :: AttestationParameters

text \<open>\<^verbatim>\<open>pem.Block\<close>: the server reads \<^verbatim>\<open>Bytes\<close> only.\<close>

record pemBlock =
  BlockType :: string
  Bytes :: bytes

text \<open>
  What a handler leaves behind: an error written with \<^verbatim>\<open>http.Error\<close> (status and
  message), a JSON-encoded \<^verbatim>\<open>responseData\<close> with status 200, or a run-time panic
  that unwinds the handler before anything is written (the deferred unlock still runs).
\<close>

datatype reply =
    HttpError nat string
  | HttpJSON responseData
  | HandlerPanic

text \<open>
  A function that may panic, return an error or return a value.
\<close>

datatype ('e, 'a) result =
    Panicked
  | Failed 'e
  | Returned 'a

text \<open>
  The calls the handlers make into code that is not part of the listed sources, taken as
  parameters: \<^verbatim>\<open>pem.Decode\<close> (nil block = \<open>None\<close>; the rest of the input is
  discarded by the caller), \<^verbatim>\<open>x509.ParsePKCS1PublicKey\<close>,
  \<^verbatim>\<open>ActivationParameters.Generate\<close> of package attest (it draws the secret at random,
  so the field stands for the outcome of this call) and \<^verbatim>\<open>verifier.VerifyQuote\<close>.
\<close>

record deps =
  pemDecode :: "bytes \<Rightarrow> pemBlock option"
  ParsePKCS1PublicKey :: "bytes \<Rightarrow> goerror + rsaPublicKey"
  Generate :: "ActivationParameters \<Rightarrow> goerror + (bytes \<times> EncryptedCredential)"
  VerifyQuote :: "nat \<Rightarrow> bytes \<Rightarrow> bytes \<Rightarrow> bytes \<Rightarrow> (32 word \<rightharpoonup> bytes) \<Rightarrow> bytes
                  \<Rightarrow> goerror + QuoteVerificationResults"

subsection \<open>The client registry\<close>

text \<open>
  The zero-valued record \<^verbatim>\<open>clientInfo{AIK: attest.AttestationParameters{Public: pub}}\<close>.
\<close>

definition newClientInfo :: "bytes \<Rightarrow> clientInfo" where
  "newClientInfo pub =
     \<lparr>AIK = \<lparr>Public = pub, UseTCSDActivationFormat = False, CreateData = [],
              CreateAttestation = [], CreateSignature = []\<rparr>,
      EK = None, ActivationSecret = [], Activated = False, Nonce = [],
      AttestResults = None\<rparr>"

text \<open>The scan of \<^verbatim>\<open>server.clientInfo\<close>: the index of the first record whose public blob
  equals \<open>pub\<close>.\<close>

fun findClient :: "clientInfo list \<Rightarrow> bytes \<Rightarrow> nat option" where
  "findClient [] pub = None"
| "findClient (c # cs) pub =
     (if Public (AIK c) = pub then Some 0 else map_option Suc (findClient cs pub))"

text \<open>
  The method \<^verbatim>\<open>server.clientInfo\<close>: it returns a pointer into \<^verbatim>\<open>s.state\<close>, here the
  state (with a record appended when none matched) and the index the pointer refers to.
\<close>

definition server_clientInfo :: "server \<Rightarrow> bytes \<Rightarrow> server \<times> nat" where
  "server_clientInfo s pub =
     (case findClient (state s) pub of
        Some i \<Rightarrow> (s, i)
      | None \<Rightarrow> (s\<lparr>state := state s @ [newClientInfo pub]\<rparr>, length (state s)))"

text \<open>The record a handler would work on for \<open>pub\<close>: what \<^verbatim>\<open>s.clientInfo(pub)\<close> points to.\<close>

definition clientOf :: "server \<Rightarrow> bytes \<Rightarrow> clientInfo" where
  "clientOf s pub = (case server_clientInfo s pub of (s', i) \<Rightarrow> state s' ! i)"

subsection \<open>The handlers\<close>

text \<open>
  Each handler takes the decoded request body (\<open>None\<close> when \<^verbatim>\<open>unmarshalRequestBody\<close>
  returns an error) and returns the new server state and what was written.
\<close>

definition internalServerError :: reply where
  "internalServerError = HttpError 500 ''Internal server error''"

definition emptyResponse :: responseData where
  "emptyResponse = \<lparr>ActivationChallenge = [], respNonce = []\<rparr>"

text \<open>
  \<^verbatim>\<open>requestData.EKPublic\<close>: the block returned by \<^verbatim>\<open>pem.Decode\<close> is dereferenced
  without a nil check, so input with no PEM block panics.
\<close>

definition EKPublic :: "deps \<Rightarrow> requestData \<Rightarrow> (goerror, rsaPublicKey) result" where
  "EKPublic env rd =
     (case pemDecode env (EKPem rd) of
        None \<Rightarrow> Panicked
      | Some b \<Rightarrow>
          (case ParsePKCS1PublicKey env (Bytes b) of
             Inl err \<Rightarrow> Failed err
           | Inr k \<Rightarrow> Returned k))"

definition activationGetChallenge :: "deps \<Rightarrow> server \<Rightarrow> requestData option \<Rightarrow> server \<times> reply" where
  "activationGetChallenge env s r =
     (case r of
        None \<Rightarrow> (s, internalServerError)
      | Some rd \<Rightarrow>
          (case EKPublic env rd of
             Panicked \<Rightarrow> (s, HandlerPanic)
           | Failed err \<Rightarrow> (s, internalServerError)
           | Returned ek \<Rightarrow>
               (case Generate env \<lparr>apTPMVersion = TPMVersion rd, apEK = ek, apAIK = reqAIK rd\<rparr> of
                  Inl err \<Rightarrow> (s, internalServerError)
                | Inr (secret, ec) \<Rightarrow>
                    (case server_clientInfo s (Public (reqAIK rd)) of
                       (s1, i) \<Rightarrow>
                         (s1\<lparr>state := (state s1)
                               [i := (state s1 ! i)\<lparr>AIK := reqAIK rd, ActivationSecret := secret,
                                                     EK := Some ek, Activated := False\<rparr>]\<rparr>,
                          HttpJSON \<lparr>ActivationChallenge = ec, respNonce = []\<rparr>)))))"

definition activate :: "server \<Rightarrow> requestData option \<Rightarrow> server \<times> reply" where
  "activate s r =
     (case r of
        None \<Rightarrow> (s, internalServerError)
      | Some rd \<Rightarrow>
          (case server_clientInfo s (Public (reqAIK rd)) of
             (s1, i) \<Rightarrow>
               if length (ActivationSecret (state s1 ! i)) = 0
                  \<or> ActivationSecret (state s1 ! i) \<noteq> DecryptedCredential rd
               then (s1, HttpError 400 ''Activation failed'')
               else (s1\<lparr>state := (state s1)[i := (state s1 ! i)\<lparr>Activated := True\<rparr>]\<rparr>,
                     HttpJSON emptyResponse)))"

text \<open>
  \<^verbatim>\<open>getNonce\<close>: \<open>rnd\<close> is what \<^verbatim>\<open>rand.Reader\<close> delivers. The buffer has 32 bytes and the
  error of \<^verbatim>\<open>io.ReadFull\<close> is ignored, so a short read leaves zero bytes at the end.
\<close>

definition getNonce :: "server \<Rightarrow> requestData option \<Rightarrow> bytes \<Rightarrow> server \<times> reply" where
  "getNonce s r rnd =
     (case r of
        None \<Rightarrow> (s, internalServerError)
      | Some rd \<Rightarrow>
          (case server_clientInfo s (Public (reqAIK rd)) of
             (s1, i) \<Rightarrow>
               (let n = take 32 (rnd @ replicate 32 0) in
                (s1\<lparr>state := (state s1)[i := (state s1 ! i)\<lparr>Nonce := n\<rparr>]\<rparr>,
                 HttpJSON \<lparr>ActivationChallenge = [], respNonce = n\<rparr>))))"

definition attest :: "deps \<Rightarrow> server \<Rightarrow> requestData option \<Rightarrow> server \<times> reply" where
  "attest env s r =
     (case r of
        None \<Rightarrow> (s, internalServerError)
      | Some rd \<Rightarrow>
          (case server_clientInfo s (Public (reqAIK rd)) of
             (s1, i) \<Rightarrow>
               (case VerifyQuote env (TPMVersion rd) (Public (reqAIK rd)) (Quote (reqQuote rd))
                       (Signature (reqQuote rd)) (PCRs rd) (Nonce (state s1 ! i)) of
                  Inl err \<Rightarrow> (s1, internalServerError)
                | Inr qVerification \<Rightarrow>
                    (s1\<lparr>state := (state s1)
                          [i := (state s1 ! i)\<lparr>AttestResults := Some qVerification\<rparr>]\<rparr>,
                     HttpJSON emptyResponse))))"

section \<open>The endorsement-key certificate verifier (package verifier)\<close>

subsection \<open>Data\<close>

text \<open>
  The fields of an \<^verbatim>\<open>x509.Certificate\<close> that the verifier reads or writes, and the
  encoded certificate \<^verbatim>\<open>Raw\<close>.
\<close>

record pkixName =
  CommonName :: string
  Organization :: "string list"

record Certificate =
  Raw :: bytes
  Issuer :: pkixName
  SerialNumber :: int
  UnhandledCriticalExtensions :: "nat list list"

text \<open>
  An \<^verbatim>\<open>x509.CertPool\<close>, kept as the list of its certificates. \<^verbatim>\<open>AddCert\<close> leaves out
  a certificate whose encoding is in the pool already.
\<close>

type_synonym CertPool = "Certificate list"

definition AddCert :: "Certificate \<Rightarrow> CertPool \<Rightarrow> CertPool" where
  "AddCert c pool = (if Raw c \<in> Raw ` set pool then pool else pool @ [c])"

datatype ExtKeyUsage = ExtKeyUsageAny | ExtKeyUsageOther nat

record VerifyOptions =
  Roots :: CertPool
  Intermediates :: CertPool
  KeyUsages :: "ExtKeyUsage list"

text \<open>
  An error of \<^verbatim>\<open>x509.ParseCertificate\<close>: the library tells fatal errors from the
  non-fatal ones it collects while still returning a certificate.
\<close>

datatype x509error = NonFatalErrors string | FatalError string

fun IsFatal :: "x509error \<Rightarrow> bool" where
  "IsFatal (NonFatalErrors m) = False"
| "IsFatal (FatalError m) = True"

text \<open>The Go condition \<^verbatim>\<open>err != nil && x509.IsFatal(err)\<close>.\<close>

fun fatalParse :: "x509error option \<Rightarrow> bool" where
  "fatalParse None = False"
| "fatalParse (Some err) = IsFatal err"

text \<open>The message \<^verbatim>\<open>EkcertVerificationResults\<close> of the verifier's proto file.\<close>

record CertSummary =
  IssuerCn :: string
  IssuerOrg :: string
  Serial :: string

record EkcertVerificationResults =
  Succeeded :: bool
  ChainVerified :: bool
  Chain :: "CertSummary list"
  VerificationError :: string

record EKVerifier =
  roots :: CertPool
  intermediates :: CertPool

text \<open>Errors of the file system; \<^verbatim>\<open>os.IsNotExist\<close> recognises the first.\<close>

datatype ioError = ErrNotExist | ErrPermission | ErrOther string

fun IsNotExist :: "ioError \<Rightarrow> bool" where
  "IsNotExist ErrNotExist = True"
| "IsNotExist ErrPermission = False"
| "IsNotExist (ErrOther m) = False"

text \<open>An \<^verbatim>\<open>os.FileInfo\<close>, with the two methods the verifier calls.\<close>

record FileInfo =
  Name :: string
  IsDir :: bool

text \<open>
  The file system and the x509 library, as the verifier sees them:
  \<^verbatim>\<open>ioutil.ReadDir\<close>, \<^verbatim>\<open>ioutil.ReadFile\<close>, \<^verbatim>\<open>x509.ParseCertificate\<close> (a certificate
  pointer, nil being \<open>None\<close>, and an error, nil being \<open>None\<close>),
  \<^verbatim>\<open>CertPool.AppendCertsFromPEM\<close> (the pool with the certificates found added, and
  whether any was) and \<^verbatim>\<open>Certificate.Verify\<close> (the chains and an error).
\<close>

record verifierDeps =
  ReadDir :: "string \<Rightarrow> ioError + FileInfo list"
  ReadFile :: "string \<Rightarrow> ioError + bytes"
  ParseCertificate :: "bytes \<Rightarrow> Certificate option \<times> x509error option"
  AppendCertsFromPEM :: "bytes \<Rightarrow> CertPool \<Rightarrow> CertPool \<times> bool"
  Verify :: "Certificate \<Rightarrow> VerifyOptions \<Rightarrow> Certificate list list \<times> goerror option"

text \<open>
  The errors the verifier returns: an error of the file system passed on, the
  \<^verbatim>\<open>"%s parse failed: %v"\<close> of \<^verbatim>\<open>parseCertsToPool\<close> (file name and cause), and the
  parse error \<^verbatim>\<open>VerifyEKCert\<close> passes on.
\<close>

datatype ekError =
    ReadError ioError
  | ParseFailed string x509error
  | CertError x509error

subsection \<open>Library functions on strings and paths\<close>

text \<open>\<^verbatim>\<open>strings.Join\<close>.\<close>

fun stringsJoin :: "string list \<Rightarrow> string \<Rightarrow> string" where
  "stringsJoin [] sep = []"
| "stringsJoin [x] sep = x"
| "stringsJoin (x # y # ys) sep = x @ sep @ stringsJoin (y # ys) sep"

text \<open>
  \<^verbatim>\<open>filepath.Clean\<close>, for the separator \<^verbatim>\<open>/\<close>. \<open>pathElements\<close> cuts the path at the
  separators. \<open>cleanElement\<close> handles one element given the elements kept so far: an
  empty element and \<^verbatim>\<open>.\<close> are dropped, \<^verbatim>\<open>..\<close> removes the element before it, is
  dropped at the root, and is kept where a relative path has nothing left to remove.
  The empty path and a relative path with nothing kept are \<^verbatim>\<open>.\<close>.
\<close>

fun pathElements :: "string \<Rightarrow> string \<Rightarrow> string list" where
  "pathElements [] cur = [cur]"
| "pathElements (c # cs) cur =
     (if c = CHR ''/'' then cur # pathElements cs [] else pathElements cs (cur @ [c]))"

definition cleanElement :: "bool \<Rightarrow> string list \<Rightarrow> string \<Rightarrow> string list" where
  "cleanElement rooted kept e =
     (if e = [] \<or> e = ''.'' then kept
      else if e = ''..'' then
        (if kept \<noteq> [] \<and> last kept \<noteq> ''..'' then butlast kept
         else if rooted then kept
         else kept @ [''..''])
      else kept @ [e])"

definition Clean :: "string \<Rightarrow> string" where
  "Clean p =
     (if p = [] then ''.''
      else if hd p = CHR ''/''
        then CHR ''/'' # stringsJoin (foldl (cleanElement True) [] (pathElements p [])) ''/''
      else if foldl (cleanElement False) [] (pathElements p []) = [] then ''.''
      else stringsJoin (foldl (cleanElement False) [] (pathElements p [])) ''/'')"

text \<open>
  \<^verbatim>\<open>filepath.Join\<close> of two elements: the elements from the first non-empty one on,
  joined by the separator and cleaned; the empty string when both are empty.
\<close>

definition Join :: "string \<Rightarrow> string \<Rightarrow> string" where
  "Join dir name =
     (if dir \<noteq> [] then Clean (dir @ ''/'' @ name)
      else if name \<noteq> [] then Clean name
      else [])"

text \<open>
  \<^verbatim>\<open>filepath.Ext\<close>: scanning from the end of the path up to the last separator, the
  suffix that starts at the first dot met; empty when there is none. \<open>extScan\<close> walks
  the reversed path and collects what it has passed.
\<close>

fun extScan :: "string \<Rightarrow> string \<Rightarrow> string" where
  "extScan [] seen = []"
| "extScan (c # cs) seen =
     (if c = CHR ''/'' then []
      else if c = CHR ''.'' then c # seen
      else extScan cs (c # seen))"

definition Ext :: "string \<Rightarrow> string" where
  "Ext p = extScan (rev p) []"

text \<open>\<^verbatim>\<open>big.Int.String\<close>: the decimal numeral, with a minus sign when negative.\<close>

function decimalDigits :: "nat \<Rightarrow> string" where
  "decimalDigits n =
     (if n < 10 then [''0123456789'' ! n]
      else decimalDigits (n div 10) @ [''0123456789'' ! (n mod 10)])"
  by pat_completeness auto
termination
  by (relation "measure (\<lambda>n. n)") auto

declare decimalDigits.simps [simp del]

definition bigIntString :: "int \<Rightarrow> string" where
  "bigIntString i = (if i < 0 then CHR ''-'' # decimalDigits (nat (- i)) else decimalDigits (nat i))"

subsection \<open>VerifyEKCert\<close>

text \<open>The summary appended to \<^verbatim>\<open>out.Chain\<close> for one certificate of the chain.\<close>

definition certSummary :: "Certificate \<Rightarrow> CertSummary" where
  "certSummary cert =
     \<lparr>IssuerCn = CommonName (Issuer cert),
      IssuerOrg = stringsJoin (Organization (Issuer cert)) '' '',
      Serial = bigIntString (SerialNumber cert)\<rparr>"

text \<open>
  \<^verbatim>\<open>EKVerifier.VerifyEKCert\<close>. The field \<^verbatim>\<open>UnhandledCriticalExtensions\<close> is cleared
  before the error of the parse is looked at, so a nil certificate panics; so does
  \<^verbatim>\<open>chains[0]\<close> on an empty list of chains.
\<close>

definition VerifyEKCert ::
  "verifierDeps \<Rightarrow> EKVerifier \<Rightarrow> bytes \<Rightarrow> (ekError, EkcertVerificationResults) result" where
  "VerifyEKCert lib v certBytes =
     (case ParseCertificate lib certBytes of
        (None, err) \<Rightarrow> Panicked
      | (Some c0, err) \<Rightarrow>
          (case (if fatalParse err then err else None) of
             Some e \<Rightarrow> Failed (CertError e)
           | None \<Rightarrow>
               (case Verify lib (c0\<lparr>UnhandledCriticalExtensions := []\<rparr>)
                       \<lparr>Roots = roots v, Intermediates = intermediates v,
                        KeyUsages = [ExtKeyUsageAny]\<rparr> of
                  (certChains, Some verificationErr) \<Rightarrow>
                    Returned \<lparr>Succeeded = False, ChainVerified = False, Chain = [],
                              VerificationError = verificationErr\<rparr>
                | (certChains, None) \<Rightarrow>
                    (case certChains of
                       [] \<Rightarrow> Panicked
                     | chain # others \<Rightarrow>
                         Returned \<lparr>Succeeded = True, ChainVerified = True,
                                   Chain = map certSummary chain,
                                   VerificationError = []\<rparr>))))"

subsection \<open>NewEKVerifier\<close>

text \<open>
  The body of the loop of \<^verbatim>\<open>parseCertsToPool\<close> for one entry of the listing. In the
  second case Go evaluates \<^verbatim>\<open>pool.AppendCertsFromPEM(d)\<close> only when the parse error is
  fatal, and the certificates it finds stay in the pool. \<^verbatim>\<open>AddCert\<close> panics on a nil
  certificate.
\<close>

definition parseCertFile ::
  "verifierDeps \<Rightarrow> string \<Rightarrow> FileInfo \<Rightarrow> CertPool \<Rightarrow> (ekError, CertPool) result" where
  "parseCertFile lib path info pool =
     (if IsDir info then Returned pool
      else if Ext (Name info) = ''.der'' then
        (case ReadFile lib (Join path (Name info)) of
           Inl err \<Rightarrow> Failed (ReadError err)
         | Inr d \<Rightarrow>
             (case ParseCertificate lib d of
                (c, Some err) \<Rightarrow>
                  if IsFatal err then Failed (ParseFailed (Name info) err)
                  else (case c of None \<Rightarrow> Panicked | Some cert \<Rightarrow> Returned (AddCert cert pool))
              | (c, None) \<Rightarrow>
                  (case c of None \<Rightarrow> Panicked | Some cert \<Rightarrow> Returned (AddCert cert pool))))
      else if Ext (Name info) = ''.crt'' \<or> Ext (Name info) = ''.cer'' then
        (case ReadFile lib (Join path (Name info)) of
           Inl err \<Rightarrow> Failed (ReadError err)
         | Inr d \<Rightarrow>
             (case ParseCertificate lib d of
                (c, Some err) \<Rightarrow>
                  if IsFatal err then
                    (case AppendCertsFromPEM lib d pool of
                       (pool', ok) \<Rightarrow>
                         if ok then Returned pool' else Failed (ParseFailed (Name info) err))
                  else Returned pool
              | (c, None) \<Rightarrow>
                  (case c of None \<Rightarrow> Panicked | Some cert \<Rightarrow> Returned (AddCert cert pool))))
      else Returned pool)"

text \<open>\<^verbatim>\<open>parseCertsToPool\<close>: the loop over the listing, left at the first error.\<close>

fun parseCertsToPool ::
  "verifierDeps \<Rightarrow> string \<Rightarrow> FileInfo list \<Rightarrow> CertPool \<Rightarrow> (ekError, CertPool) result" where
  "parseCertsToPool lib path [] pool = Returned pool"
| "parseCertsToPool lib path (info # files) pool =
     (case parseCertFile lib path info pool of
        Panicked \<Rightarrow> Panicked
      | Failed err \<Rightarrow> Failed err
      | Returned pool' \<Rightarrow> parseCertsToPool lib path files pool')"

text \<open>
  \<^verbatim>\<open>readCertificates\<close>: a \<^verbatim>\<open>RootCA\<close> directory that does not exist is passed over
  (\<^verbatim>\<open>err != nil && !os.IsNotExist(err)\<close> is the only error returned), and so is an
  \<^verbatim>\<open>IntermediateCA\<close> directory that does not exist.
\<close>

definition readCertificates ::
  "verifierDeps \<Rightarrow> string \<Rightarrow> CertPool \<Rightarrow> CertPool \<Rightarrow> (ekError, CertPool \<times> CertPool) result" where
  "readCertificates lib dir rootPool intermediatePool =
     (case (case ReadDir lib (Join dir ''RootCA'') of
              Inl err \<Rightarrow> if \<not> IsNotExist err then Failed (ReadError err) else Returned rootPool
            | Inr rootFiles \<Rightarrow> parseCertsToPool lib (Join dir ''RootCA'') rootFiles rootPool) of
        Panicked \<Rightarrow> Panicked
      | Failed err \<Rightarrow> Failed err
      | Returned rootPool' \<Rightarrow>
          (case ReadDir lib (Join dir ''IntermediateCA'') of
             Inl err \<Rightarrow>
               if IsNotExist err then Returned (rootPool', intermediatePool)
               else Failed (ReadError err)
           | Inr intermediateFiles \<Rightarrow>
               (case parseCertsToPool lib (Join dir ''IntermediateCA'') intermediateFiles
                       intermediatePool of
                  Panicked \<Rightarrow> Panicked
                | Failed err \<Rightarrow> Failed err
                | Returned intermediatePool' \<Rightarrow> Returned (rootPool', intermediatePool'))))"

text \<open>The inner loop of \<^verbatim>\<open>NewEKVerifier\<close>, over the entries of one directory.\<close>

fun readManufacturers ::
  "verifierDeps \<Rightarrow> string \<Rightarrow> FileInfo list \<Rightarrow> CertPool \<Rightarrow> CertPool
     \<Rightarrow> (ekError, CertPool \<times> CertPool) result" where
  "readManufacturers lib dir [] rootPool intermediatePool = Returned (rootPool, intermediatePool)"
| "readManufacturers lib dir (f # fs) rootPool intermediatePool =
     (if \<not> IsDir f then readManufacturers lib dir fs rootPool intermediatePool
      else
        (case readCertificates lib (Join dir (Name f)) rootPool intermediatePool of
           Panicked \<Rightarrow> Panicked
         | Failed err \<Rightarrow> Failed err
         | Returned (rootPool', intermediatePool') \<Rightarrow>
             readManufacturers lib dir fs rootPool' intermediatePool'))"

text \<open>The outer loop of \<^verbatim>\<open>NewEKVerifier\<close>, over \<^verbatim>\<open>certsPath\<close>.\<close>

fun readCertsPath ::
  "verifierDeps \<Rightarrow> string list \<Rightarrow> CertPool \<Rightarrow> CertPool
     \<Rightarrow> (ekError, CertPool \<times> CertPool) result" where
  "readCertsPath lib [] rootPool intermediatePool = Returned (rootPool, intermediatePool)"
| "readCertsPath lib (dir # dirs) rootPool intermediatePool =
     (case ReadDir lib dir of
        Inl err \<Rightarrow> Failed (ReadError err)
      | Inr root \<Rightarrow>
          (case readManufacturers lib dir root rootPool intermediatePool of
             Panicked \<Rightarrow> Panicked
           | Failed err \<Rightarrow> Failed err
           | Returned (rootPool', intermediatePool') \<Rightarrow>
               readCertsPath lib dirs rootPool' intermediatePool'))"

definition NewEKVerifier :: "verifierDeps \<Rightarrow> string list \<Rightarrow> (ekError, EKVerifier) result" where
  "NewEKVerifier lib certsPath =
     (case readCertsPath lib certsPath [] [] of
        Panicked \<Rightarrow> Panicked
      | Failed err \<Rightarrow> Failed err
      | Returned (rootPool, intermediatePool) \<Rightarrow>
          Returned \<lparr>roots = rootPool, intermediates = intermediatePool\<rparr>)"

section \<open>Notions used to state the properties\<close>

text \<open>
  The verdicts of the activation verifier in the spec's words: no challenge issued when
  the pending secret is empty, activation failed on a mismatch, success on a match. A
  second definition, to be compared with what the handler \<^verbatim>\<open>activate\<close> replies.
\<close>

datatype ActivationVerdict = NoChallengeIssued | ActivationFailed | ActivationSucceeded

definition ActivationVerifier_spec :: "bytes \<Rightarrow> bytes \<Rightarrow> ActivationVerdict" where
  "ActivationVerifier_spec pending claimed =
     (if pending = [] then NoChallengeIssued
      else if claimed \<noteq> pending then ActivationFailed
      else ActivationSucceeded)"

text \<open>A file name that ends in one of the three certificate extensions.\<close>

definition hasCertSuffix :: "string \<Rightarrow> bool" where
  "hasCertSuffix name = (suffix ''.der'' name \<or> suffix ''.crt'' name \<or> suffix ''.cer'' name)"

text \<open>A directory that \<^verbatim>\<open>ioutil.ReadDir\<close> reports as not existing.\<close>

definition dirMissing :: "verifierDeps \<Rightarrow> string \<Rightarrow> bool" where
  "dirMissing lib p = (case ReadDir lib p of Inl err \<Rightarrow> IsNotExist err | Inr files \<Rightarrow> False)"

text \<open>
  What \<^verbatim>\<open>NewEKVerifier\<close> returns from the point where it holds the pools \<open>rootPool\<close>
  and \<open>intermediatePool\<close> and still has to read the entries \<open>fs\<close> of the directory
  \<open>dir\<close> and then the directories \<open>dirs\<close>.
\<close>

definition constructFrom ::
  "verifierDeps \<Rightarrow> string \<Rightarrow> FileInfo list \<Rightarrow> string list \<Rightarrow> CertPool \<Rightarrow> CertPool
     \<Rightarrow> (ekError, EKVerifier) result" where
  "constructFrom lib dir fs dirs rootPool intermediatePool =
     (case readManufacturers lib dir fs rootPool intermediatePool of
        Panicked \<Rightarrow> Panicked
      | Failed err \<Rightarrow> Failed err
      | Returned (rootPool', intermediatePool') \<Rightarrow>
          (case readCertsPath lib dirs rootPool' intermediatePool' of
             Panicked \<Rightarrow> Panicked
           | Failed err \<Rightarrow> Failed err
           | Returned (rootPool'', intermediatePool'') \<Rightarrow>
               Returned \<lparr>roots = rootPool'', intermediates = intermediatePool''\<rparr>))"

section \<open>Concrete requests, states and libraries\<close>

text \<open>
  Modelled from the spec: \<^verbatim>\<open>verifier.VerifyQuote\<close> is not among the listed sources.
  The spec's quote verifier makes three checks, all of which must pass: the signature
  over the quote bytes under the identity key, by the algorithm of the version tag; the
  quote's embedded challenge against the nonce; and the quote's embedded digest against
  the digest recomputed from the reference registers. The outcome carries one flag per
  check. The signature scheme, the layout of a quote and the digest of the registers are
  parameters.
\<close>

definition VerifyQuote_spec ::
  "(nat \<Rightarrow> bytes \<Rightarrow> bytes \<Rightarrow> bytes \<Rightarrow> bool) \<Rightarrow> (bytes \<Rightarrow> bytes \<times> bytes)
     \<Rightarrow> ((32 word \<rightharpoonup> bytes) \<Rightarrow> bytes)
     \<Rightarrow> nat \<Rightarrow> bytes \<Rightarrow> bytes \<Rightarrow> bytes \<Rightarrow> (32 word \<rightharpoonup> bytes) \<Rightarrow> bytes
     \<Rightarrow> goerror + QuoteVerificationResults" where
  "VerifyQuote_spec sigVerifies quoteFields pcrDigest version pub quote sig pcrs nonce =
     (case quoteFields quote of
        (challenge, digest) \<Rightarrow>
          Inr \<lparr>QSucceeded = (sigVerifies version pub quote sig \<and> challenge = nonce
                              \<and> digest = pcrDigest pcrs),
               SignatureMismatch = (\<not> sigVerifies version pub quote sig),
               PcrDigest = digest,
               PcrDigestMismatch = (digest \<noteq> pcrDigest pcrs),
               NonceMismatch = (challenge \<noteq> nonce)\<rparr>)"

text \<open>
  The RSA public key with modulus 3233 and exponent 17: its PKCS1 encoding (a DER
  sequence of the two integers) and the PEM text of that encoding, as the demo client's
  \<^verbatim>\<open>rsaEKPEM\<close> sends it.
\<close>

definition ekDER :: bytes where
  "ekDER = [0x30, 0x07, 0x02, 0x02, 0x0C, 0xA1, 0x02, 0x01, 0x11]"

definition ekPEM :: bytes where
  "ekPEM = map of_char
     ''-----BEGIN RSA PUBLIC KEY-----\<newline>MAcCAgyhAgER\<newline>-----END RSA PUBLIC KEY-----\<newline>''"

text \<open>
  Libraries to run the handlers with. They know one key: the PEM decoder finds the
  block \<open>ekDER\<close> in \<open>ekPEM\<close> and no block in any other input (so none in the empty
  input, as \<^verbatim>\<open>pem.Decode\<close>), and the key parser reads \<open>ekDER\<close> and rejects any other
  input. \<^verbatim>\<open>Generate\<close> returns the secret \<open>[8, 8]\<close>. For quotes, the signature of a quote
  is the key followed by the quote, a quote is a challenge of 32 bytes followed by the
  digest, and the digest of the registers is the value given for register 0.
\<close>

definition stubDeps :: deps where
  "stubDeps =
     \<lparr>pemDecode =
        (\<lambda>d. if d = ekPEM then Some \<lparr>BlockType = ''RSA PUBLIC KEY'', Bytes = ekDER\<rparr> else None),
      ParsePKCS1PublicKey =
        (\<lambda>b. if b = ekDER then Inr \<lparr>modulusN = 3233, exponentE = 17\<rparr>
              else Inl ''asn1: structure error''),
      Generate = (\<lambda>ap. Inr ([8, 8], [4])),
      VerifyQuote =
        VerifyQuote_spec (\<lambda>version pub quote sig. sig = pub @ quote)
          (\<lambda>quote. (take 32 quote, drop 32 quote))
          (\<lambda>pcrs. case pcrs 0 of None \<Rightarrow> [] | Some d \<Rightarrow> d)\<rparr>"

definition demoAIK :: AttestationParameters where
  "demoAIK = \<lparr>Public = [1, 2, 3], UseTCSDActivationFormat = False, CreateData = [],
              CreateAttestation = [], CreateSignature = []\<rparr>"

text \<open>A request with the identity key \<open>[1, 2, 3]\<close> and every other field empty.\<close>

definition demoRequest :: requestData where
  "demoRequest = \<lparr>TPMVersion = 2, reqAIK = demoAIK, EKPem = [], DecryptedCredential = [],
                  reqQuote = \<lparr>Quote = [], Signature = []\<rparr>, PCRs = Map.empty\<rparr>"

definition wrongSecret :: requestData where
  "wrongSecret = demoRequest\<lparr>DecryptedCredential := [7]\<rparr>"

definition rightSecret :: requestData where
  "rightSecret = demoRequest\<lparr>DecryptedCredential := [9, 9]\<rparr>"

definition challengeRequest :: requestData where
  "challengeRequest = demoRequest\<lparr>EKPem := ekPEM\<rparr>"

text \<open>
  Two signed quotes over register 0 with value \<open>[170]\<close>: one bound to the challenge of
  32 bytes 5, one bound to the challenge of 32 bytes 6.
\<close>

definition goodQuote :: requestData where
  "goodQuote =
     demoRequest\<lparr>reqQuote := \<lparr>Quote = replicate 32 5 @ [170],
                               Signature = [1, 2, 3] @ replicate 32 5 @ [170]\<rparr>,
                 PCRs := [0 \<mapsto> [170]]\<rparr>"

definition badQuote :: requestData where
  "badQuote =
     demoRequest\<lparr>reqQuote := \<lparr>Quote = replicate 32 6 @ [170],
                               Signature = [1, 2, 3] @ replicate 32 6 @ [170]\<rparr>,
                 PCRs := [0 \<mapsto> [170]]\<rparr>"

text \<open>A server that has issued a challenge with secret \<open>[9, 9]\<close> for the key \<open>[1, 2, 3]\<close>.\<close>

definition pendingServer :: server where
  "pendingServer = \<lparr>state = [(newClientInfo [1, 2, 3])\<lparr>ActivationSecret := [9, 9]\<rparr>]\<rparr>"

text \<open>A fresh server after one nonce request for the key \<open>[1, 2, 3]\<close>.\<close>

definition nonceServer :: server where
  "nonceServer = fst (getNonce \<lparr>state = []\<rparr> (Some demoRequest) (replicate 32 5))"

text \<open>
  Four certificates: a root, a certificate it issued, one of an unknown issuer, and an
  intermediate of another manufacturer.
\<close>

definition boltRoot :: Certificate where
  "boltRoot = \<lparr>Raw = [48, 1],
               Issuer = \<lparr>CommonName = ''Bolt Root CA'', Organization = [''Bolt'', ''Inc'']\<rparr>,
               SerialNumber = 7, UnhandledCriticalExtensions = []\<rparr>"

definition boltEK :: Certificate where
  "boltEK = \<lparr>Raw = [48, 2],
             Issuer = \<lparr>CommonName = ''Bolt Root CA'', Organization = [''Bolt'', ''Inc'']\<rparr>,
             SerialNumber = 4660, UnhandledCriticalExtensions = [[2, 5, 29, 17]]\<rparr>"

definition strayEK :: Certificate where
  "strayEK = \<lparr>Raw = [48, 3], Issuer = \<lparr>CommonName = ''Nobody'', Organization = []\<rparr>,
              SerialNumber = 1, UnhandledCriticalExtensions = []\<rparr>"

definition coreCA :: Certificate where
  "coreCA = \<lparr>Raw = [48, 5], Issuer = \<lparr>CommonName = ''Core Root CA'', Organization = [''Core'']\<rparr>,
             SerialNumber = 12, UnhandledCriticalExtensions = []\<rparr>"

text \<open>
  A file system and an x509 library to run the verifier with. Under \<^verbatim>\<open>/c\<close> the
  manufacturer \<^verbatim>\<open>Acme\<close> has neither a \<^verbatim>\<open>RootCA\<close> nor an \<^verbatim>\<open>IntermediateCA\<close>
  directory; \<^verbatim>\<open>Bolt\<close> has a \<^verbatim>\<open>RootCA\<close> directory with the root certificate and an
  unreadable file \<^verbatim>\<open>notes.pem\<close>, and no \<^verbatim>\<open>IntermediateCA\<close> directory. Under
  \<^verbatim>\<open>/d\<close> the manufacturer \<^verbatim>\<open>Core\<close> has no \<^verbatim>\<open>RootCA\<close> directory and one
  intermediate certificate; the \<^verbatim>\<open>RootCA\<close> directory of \<^verbatim>\<open>Vault\<close> exists and may not
  be read.
\<close>

definition demoFS :: verifierDeps where
  "demoFS =
     \<lparr>ReadDir = (\<lambda>p.
        if p = ''/c'' then Inr [\<lparr>Name = ''Acme'', IsDir = True\<rparr>, \<lparr>Name = ''Bolt'', IsDir = True\<rparr>,
                                \<lparr>Name = ''README'', IsDir = False\<rparr>]
        else if p = ''/c/Bolt/RootCA'' then Inr [\<lparr>Name = ''notes.pem'', IsDir = False\<rparr>,
                                                  \<lparr>Name = ''root.der'', IsDir = False\<rparr>]
        else if p = ''/d'' then Inr [\<lparr>Name = ''Core'', IsDir = True\<rparr>, \<lparr>Name = ''Vault'', IsDir = True\<rparr>]
        else if p = ''/d/Core/IntermediateCA'' then Inr [\<lparr>Name = ''ca.crt'', IsDir = False\<rparr>]
        else if p = ''/d/Vault/RootCA'' then Inl ErrPermission
        else Inl ErrNotExist),
      ReadFile = (\<lambda>p.
        if p = ''/c/Bolt/RootCA/root.der'' then Inr [48, 1]
        else if p = ''/d/Core/IntermediateCA/ca.crt'' then Inr [48, 5]
        else Inl ErrPermission),
      ParseCertificate = (\<lambda>d.
        if d = [48, 1] then (Some boltRoot, None)
        else if d = [48, 5] then (Some coreCA, None)
        else if d = [48, 2]
          then (Some boltEK, Some (NonFatalErrors ''x509: unhandled critical extension''))
        else if d = [48, 3] then (Some strayEK, None)
        else (None, Some (FatalError ''asn1: syntax error''))),
      AppendCertsFromPEM = (\<lambda>d pool. (pool, False)),
      Verify = (\<lambda>c opts.
        if CommonName (Issuer c) = ''Bolt Root CA'' \<and> boltRoot \<in> set (Roots opts)
           \<and> UnhandledCriticalExtensions c = []
        then ([[c, boltRoot]], None)
        else ([], Some ''x509: certificate signed by unknown authority''))\<rparr>"

section \<open>Properties of the client registry\<close>

lemma newClientInfo_Public [simp]: "Public (AIK (newClientInfo pub)) = pub"
  by (simp add: newClientInfo_def)

lemma findClient_Some:
  "findClient st pub = Some i \<Longrightarrow> i < length st \<and> Public (AIK (st ! i)) = pub"
  by (induction st arbitrary: i) (auto split: if_splits)

lemma findClient_append:
  "findClient (st @ [c]) pub =
     (case findClient st pub of
        Some i \<Rightarrow> Some i
      | None \<Rightarrow> if Public (AIK c) = pub then Some (length st) else None)"
  by (induction st) (auto split: option.splits)

text \<open>Overwriting a record by one with the same public blob does not move any lookup.\<close>

lemma findClient_update:
  "i < length st \<Longrightarrow> Public (AIK c) = Public (AIK (st ! i)) \<Longrightarrow>
   findClient (st[i := c]) pub = findClient st pub"
proof (induction st arbitrary: i)
  case Nil
  then show ?case by simp
next
  case (Cons a st)
  then show ?case by (cases i) auto
qed

lemma server_clientInfo_index:
  assumes "server_clientInfo s pub = (s1, i)"
  shows "i < length (state s1)" and "findClient (state s1) pub = Some i"
    and "state s1 ! i = clientOf s pub" and "Public (AIK (clientOf s pub)) = pub"
  using assms
  by (auto simp: server_clientInfo_def clientOf_def findClient_append
      dest: findClient_Some split: option.splits)

text \<open>Creating a record on first contact changes no record a later lookup would see.\<close>

lemma clientOf_after_lookup:
  "clientOf (fst (server_clientInfo s pub)) pub' = clientOf s pub'"
  by (auto simp: server_clientInfo_def clientOf_def findClient_append nth_append
      dest: findClient_Some split: option.splits)

lemma clientOf_absent:
  "findClient (state s) pub = None \<Longrightarrow> clientOf s pub = newClientInfo pub"
  by (simp add: clientOf_def server_clientInfo_def)

text \<open>What the handlers do to the registry: the record of \<open>pub\<close> is replaced, no other.\<close>

lemma clientOf_update:
  assumes "server_clientInfo s pub = (s1, i)" and "Public (AIK c) = pub"
  shows "clientOf (s1\<lparr>state := (state s1)[i := c]\<rparr>) pub' =
           (if pub' = pub then c else clientOf s pub')"
proof -
  note ix = server_clientInfo_index[OF assms(1)]
  have same: "findClient ((state s1)[i := c]) pub' = findClient (state s1) pub'"
    using ix assms(2) by (simp add: findClient_update)
  have s1: "clientOf s1 pub' = clientOf s pub'"
    using clientOf_after_lookup[of s pub pub'] assms(1) by simp
  show ?thesis
  proof (cases "pub' = pub")
    case True
    then show ?thesis using ix same
      by (simp add: clientOf_def server_clientInfo_def)
  next
    case False
    show ?thesis
    proof (cases "findClient (state s1) pub'")
      case None
      then show ?thesis using False same s1 ix(1)
        by (simp add: clientOf_def server_clientInfo_def nth_append)
    next
      case (Some j)
      then have "j \<noteq> i"
        using ix(2) False findClient_Some[of "state s1" pub' j]
          findClient_Some[of "state s1" pub i] by auto
      then show ?thesis using False same s1 Some
        by (simp add: clientOf_def server_clientInfo_def)
    qed
  qed
qed

text \<open>A record with a pending secret is in the registry: the lookup appends nothing.\<close>

lemma pending_client_exists:
  assumes "ActivationSecret (clientOf s pub) \<noteq> []"
  shows "fst (server_clientInfo s pub) = s"
proof (cases "findClient (state s) pub")
  case None
  then show ?thesis using assms clientOf_absent[of s pub] by (simp add: newClientInfo_def)
next
  case (Some i)
  then show ?thesis by (simp add: server_clientInfo_def)
qed

lemma demo_pub [simp]:
  "Public (reqAIK demoRequest) = [1, 2, 3]" "Public (reqAIK wrongSecret) = [1, 2, 3]"
  "Public (reqAIK rightSecret) = [1, 2, 3]" "Public (reqAIK challengeRequest) = [1, 2, 3]"
  "Public (reqAIK goodQuote) = [1, 2, 3]" "Public (reqAIK badQuote) = [1, 2, 3]"
  by (simp_all add: demoRequest_def demoAIK_def wrongSecret_def rightSecret_def
      challengeRequest_def goodQuote_def badQuote_def)

lemma clientOf_empty: "clientOf \<lparr>state = []\<rparr> pub = newClientInfo pub"
  by (simp add: clientOf_absent)

lemma clientOf_pendingServer:
  "clientOf pendingServer [1, 2, 3] = (newClientInfo [1, 2, 3])\<lparr>ActivationSecret := [9, 9]\<rparr>"
  by (simp add: clientOf_def server_clientInfo_def pendingServer_def)

section \<open>Activation\<close>

lemma activate_failure:
  assumes "ActivationSecret (clientOf s (Public (reqAIK rd))) = []
           \<or> ActivationSecret (clientOf s (Public (reqAIK rd))) \<noteq> DecryptedCredential rd"
  shows "activate s (Some rd) =
           (fst (server_clientInfo s (Public (reqAIK rd))), HttpError 400 ''Activation failed'')"
proof -
  obtain s1 i where l: "server_clientInfo s (Public (reqAIK rd)) = (s1, i)"
    by (cases "server_clientInfo s (Public (reqAIK rd))")
  show ?thesis using assms l server_clientInfo_index(3)[OF l]
    by (auto simp: activate_def)
qed

lemma activate_success:
  assumes "ActivationSecret (clientOf s (Public (reqAIK rd))) \<noteq> []"
    and "ActivationSecret (clientOf s (Public (reqAIK rd))) = DecryptedCredential rd"
  shows "snd (activate s (Some rd)) = HttpJSON emptyResponse"
    and "clientOf (fst (activate s (Some rd))) pub =
           (if pub = Public (reqAIK rd)
            then (clientOf s (Public (reqAIK rd)))\<lparr>Activated := True\<rparr>
            else clientOf s pub)"
proof -
  obtain s1 i where l: "server_clientInfo s (Public (reqAIK rd)) = (s1, i)"
    by (cases "server_clientInfo s (Public (reqAIK rd))")
  note ix = server_clientInfo_index[OF l]
  have a: "activate s (Some rd) =
             (s1\<lparr>state := (state s1)[i := (clientOf s (Public (reqAIK rd)))\<lparr>Activated := True\<rparr>]\<rparr>,
              HttpJSON emptyResponse)"
    using assms l ix(3) by (simp add: activate_def)
  show "snd (activate s (Some rd)) = HttpJSON emptyResponse" using a by simp
  show "clientOf (fst (activate s (Some rd))) pub =
           (if pub = Public (reqAIK rd)
            then (clientOf s (Public (reqAIK rd)))\<lparr>Activated := True\<rparr>
            else clientOf s pub)"
    using a clientOf_update[OF l, of "(clientOf s (Public (reqAIK rd)))\<lparr>Activated := True\<rparr>" pub]
      ix(4)
    by simp
qed

text \<open>Activation succeeds exactly on a non-empty pending secret that the request repeats.\<close>

lemma activate_reply_cases:
  "snd (activate s (Some rd)) = HttpJSON emptyResponse \<longleftrightarrow>
     ActivationSecret (clientOf s (Public (reqAIK rd))) \<noteq> []
     \<and> ActivationSecret (clientOf s (Public (reqAIK rd))) = DecryptedCredential rd"
proof (cases "ActivationSecret (clientOf s (Public (reqAIK rd))) = []
           \<or> ActivationSecret (clientOf s (Public (reqAIK rd))) \<noteq> DecryptedCredential rd")
  case True
  then show ?thesis using activate_failure[OF True] by auto
next
  case False
  then show ?thesis using activate_success(1)[of s rd] by auto
qed

text \<open>
  C4, as the code has it. An activation request for a record whose pending secret is
  empty fails and leaves the record's activated flag, and every record, as it was. The
  failure is the reply \<^verbatim>\<open>400 Activation failed\<close>, the one a wrong secret gets: the
  handler tests both conditions in one \<^verbatim>\<open>if\<close> and has no reply of its own for a
  challenge that was never issued.
\<close>

theorem activate_no_challenge:
  assumes "ActivationSecret (clientOf s (Public (reqAIK rd))) = []"
  shows "snd (activate s (Some rd)) = HttpError 400 ''Activation failed''
       \<and> Activated (clientOf (fst (activate s (Some rd))) (Public (reqAIK rd)))
           = Activated (clientOf s (Public (reqAIK rd)))
       \<and> clientOf (fst (activate s (Some rd))) pub = clientOf s pub"
  using assms activate_failure[of s rd] by (simp add: clientOf_after_lookup)

theorem activate_no_challenge_witness:
  "ActivationSecret (clientOf \<lparr>state = []\<rparr> (Public (reqAIK wrongSecret))) = []
   \<and> snd (activate \<lparr>state = []\<rparr> (Some wrongSecret)) = HttpError 400 ''Activation failed''
   \<and> Activated (clientOf (fst (activate \<lparr>state = []\<rparr> (Some wrongSecret)))
        (Public (reqAIK wrongSecret)))
       = Activated (clientOf \<lparr>state = []\<rparr> (Public (reqAIK wrongSecret)))
   \<and> clientOf (fst (activate \<lparr>state = []\<rparr> (Some wrongSecret))) [1, 2, 3]
       = clientOf \<lparr>state = []\<rparr> [1, 2, 3]"
proof -
  have h: "ActivationSecret (clientOf \<lparr>state = []\<rparr> (Public (reqAIK wrongSecret))) = []"
    by (simp add: clientOf_empty newClientInfo_def)
  show ?thesis using h activate_no_challenge[OF h, of "[1, 2, 3]"] by simp
qed

text \<open>
  C4 as the spec states it fails: the spec's verifier tells a challenge that was never
  issued (NoChallengeIssued) from a wrong secret (ActivationFailed), the handler gives
  both the same reply. On a fresh server and on a server with the pending secret
  \<open>[9, 9]\<close>, the claimed secret \<open>[7]\<close> gets \<^verbatim>\<open>400 Activation failed\<close>.
\<close>

theorem activate_no_challenge_same_reply:
  "snd (activate \<lparr>state = []\<rparr> (Some wrongSecret)) = HttpError 400 ''Activation failed''
   \<and> snd (activate pendingServer (Some wrongSecret)) = HttpError 400 ''Activation failed''
   \<and> ActivationVerifier_spec (ActivationSecret (clientOf \<lparr>state = []\<rparr> [1, 2, 3]))
        (DecryptedCredential wrongSecret) = NoChallengeIssued
   \<and> ActivationVerifier_spec (ActivationSecret (clientOf pendingServer [1, 2, 3]))
        (DecryptedCredential wrongSecret) = ActivationFailed"
  by (simp add: activate_failure clientOf_empty clientOf_pendingServer newClientInfo_def
      ActivationVerifier_spec_def wrongSecret_def)

text \<open>
  C5. An activation request whose claimed secret differs from the non-empty pending
  secret gets \<^verbatim>\<open>400 Activation failed\<close> and changes nothing: the activated flag and the
  pending secret are as before (the whole state is), so a request \<open>rd'\<close> for the same
  key with the correct secret, made next, succeeds and sets the flag.
\<close>

theorem activate_wrong_secret:
  assumes "ActivationSecret (clientOf s (Public (reqAIK rd))) \<noteq> []"
    and "DecryptedCredential rd \<noteq> ActivationSecret (clientOf s (Public (reqAIK rd)))"
    and "Public (reqAIK rd') = Public (reqAIK rd)"
    and "DecryptedCredential rd' = ActivationSecret (clientOf s (Public (reqAIK rd)))"
  shows "activate s (Some rd) = (s, HttpError 400 ''Activation failed'')
       \<and> Activated (clientOf (fst (activate s (Some rd))) (Public (reqAIK rd)))
           = Activated (clientOf s (Public (reqAIK rd)))
       \<and> ActivationSecret (clientOf (fst (activate s (Some rd))) (Public (reqAIK rd)))
           = ActivationSecret (clientOf s (Public (reqAIK rd)))
       \<and> snd (activate (fst (activate s (Some rd))) (Some rd')) = HttpJSON emptyResponse
       \<and> Activated (clientOf (fst (activate (fst (activate s (Some rd))) (Some rd')))
            (Public (reqAIK rd)))"
proof -
  have same: "fst (server_clientInfo s (Public (reqAIK rd))) = s"
    using pending_client_exists[OF assms(1)] .
  have a: "activate s (Some rd) = (s, HttpError 400 ''Activation failed'')"
    using activate_failure[of s rd] assms(2) same by auto
  show ?thesis
    using a activate_success[of s rd'] assms by simp
qed

theorem activate_wrong_secret_witness:
  "ActivationSecret (clientOf pendingServer (Public (reqAIK wrongSecret))) = [9, 9]
   \<and> DecryptedCredential wrongSecret = [7]
   \<and> DecryptedCredential rightSecret = [9, 9]
   \<and> activate pendingServer (Some wrongSecret) = (pendingServer, HttpError 400 ''Activation failed'')
   \<and> snd (activate (fst (activate pendingServer (Some wrongSecret))) (Some rightSecret))
       = HttpJSON emptyResponse
   \<and> Activated (clientOf (fst (activate (fst (activate pendingServer (Some wrongSecret)))
        (Some rightSecret))) (Public (reqAIK wrongSecret)))"
proof -
  have h1: "ActivationSecret (clientOf pendingServer (Public (reqAIK wrongSecret))) \<noteq> []"
    and h2: "DecryptedCredential wrongSecret
              \<noteq> ActivationSecret (clientOf pendingServer (Public (reqAIK wrongSecret)))"
    and h3: "Public (reqAIK rightSecret) = Public (reqAIK wrongSecret)"
    and h4: "DecryptedCredential rightSecret
              = ActivationSecret (clientOf pendingServer (Public (reqAIK wrongSecret)))"
    by (simp_all add: clientOf_pendingServer wrongSecret_def rightSecret_def)
  have a: "ActivationSecret (clientOf pendingServer (Public (reqAIK wrongSecret))) = [9, 9]"
    and b: "DecryptedCredential wrongSecret = [7]"
    and c: "DecryptedCredential rightSecret = [9, 9]"
    by (simp_all add: clientOf_pendingServer wrongSecret_def rightSecret_def)
  show ?thesis using activate_wrong_secret[OF h1 h2 h3 h4] a b c by auto
qed

text \<open>
  C9. After an activation request has succeeded, the same request made again succeeds
  again, the record is activated after the first and after the second request, and the
  second request leaves the state as the first left it.
\<close>

theorem activate_idempotent:
  assumes "snd (activate s (Some rd)) = HttpJSON emptyResponse"
  shows "snd (activate (fst (activate s (Some rd))) (Some rd)) = HttpJSON emptyResponse
       \<and> Activated (clientOf (fst (activate s (Some rd))) (Public (reqAIK rd)))
       \<and> Activated (clientOf (fst (activate (fst (activate s (Some rd))) (Some rd)))
            (Public (reqAIK rd)))
       \<and> fst (activate (fst (activate s (Some rd))) (Some rd)) = fst (activate s (Some rd))"
proof -
  let ?pub = "Public (reqAIK rd)"
  let ?s' = "fst (activate s (Some rd))"
  have ok: "ActivationSecret (clientOf s ?pub) \<noteq> []"
    "ActivationSecret (clientOf s ?pub) = DecryptedCredential rd"
    using assms activate_reply_cases by auto
  have c': "clientOf ?s' ?pub = (clientOf s ?pub)\<lparr>Activated := True\<rparr>"
    using activate_success(2)[OF ok, of ?pub] by simp
  then have ok': "ActivationSecret (clientOf ?s' ?pub) \<noteq> []"
    "ActivationSecret (clientOf ?s' ?pub) = DecryptedCredential rd"
    using ok by auto
  have r2: "snd (activate ?s' (Some rd)) = HttpJSON emptyResponse"
    using activate_success(1)[OF ok'] .
  have a2: "Activated (clientOf (fst (activate ?s' (Some rd))) ?pub)"
    using activate_success(2)[OF ok', of ?pub] by simp
  obtain s1 i where l: "server_clientInfo ?s' ?pub = (s1, i)"
    by (cases "server_clientInfo ?s' ?pub")
  note ix = server_clientInfo_index[OF l]
  have s1: "s1 = ?s'" using l pending_client_exists[OF ok'(1)] by simp
  have "activate ?s' (Some rd) =
          (s1\<lparr>state := (state s1)[i := (state s1 ! i)\<lparr>Activated := True\<rparr>]\<rparr>,
           HttpJSON emptyResponse)"
    using ok' l ix(3) by (simp add: activate_def)
  moreover have "(state s1 ! i)\<lparr>Activated := True\<rparr> = state s1 ! i"
    using ix(3) c' by simp
  ultimately have "fst (activate ?s' (Some rd)) = ?s'"
    using s1 by simp
  then show ?thesis using r2 a2 c' by simp
qed

theorem activate_idempotent_witness:
  "snd (activate pendingServer (Some rightSecret)) = HttpJSON emptyResponse
   \<and> snd (activate (fst (activate pendingServer (Some rightSecret))) (Some rightSecret))
       = HttpJSON emptyResponse
   \<and> Activated (clientOf (fst (activate (fst (activate pendingServer (Some rightSecret)))
        (Some rightSecret))) (Public (reqAIK rightSecret)))"
proof -
  have h: "snd (activate pendingServer (Some rightSecret)) = HttpJSON emptyResponse"
    by (simp add: activate_reply_cases clientOf_pendingServer rightSecret_def)
  show ?thesis using h activate_idempotent[OF h] by simp
qed

section \<open>The activation challenge\<close>

lemma activationGetChallenge_Returned:
  assumes "EKPublic env rd = Returned ek"
    and "Generate env \<lparr>apTPMVersion = TPMVersion rd, apEK = ek, apAIK = reqAIK rd\<rparr>
           = Inr (secret, ec)"
  shows "snd (activationGetChallenge env s (Some rd))
           = HttpJSON \<lparr>ActivationChallenge = ec, respNonce = []\<rparr>"
    and "clientOf (fst (activationGetChallenge env s (Some rd))) pub =
           (if pub = Public (reqAIK rd)
            then (clientOf s (Public (reqAIK rd)))
                   \<lparr>AIK := reqAIK rd, ActivationSecret := secret, EK := Some ek,
                    Activated := False\<rparr>
            else clientOf s pub)"
    and "findClient (state (fst (activationGetChallenge env s (Some rd)))) (Public (reqAIK rd))
           \<noteq> None"
proof -
  let ?c = "(clientOf s (Public (reqAIK rd)))
              \<lparr>AIK := reqAIK rd, ActivationSecret := secret, EK := Some ek, Activated := False\<rparr>"
  obtain s1 i where l: "server_clientInfo s (Public (reqAIK rd)) = (s1, i)"
    by (cases "server_clientInfo s (Public (reqAIK rd))")
  note ix = server_clientInfo_index[OF l]
  have a: "activationGetChallenge env s (Some rd) =
             (s1\<lparr>state := (state s1)[i := ?c]\<rparr>,
              HttpJSON \<lparr>ActivationChallenge = ec, respNonce = []\<rparr>)"
    using assms l ix(3) by (simp add: activationGetChallenge_def)
  show "snd (activationGetChallenge env s (Some rd))
          = HttpJSON \<lparr>ActivationChallenge = ec, respNonce = []\<rparr>"
    using a by simp
  show "clientOf (fst (activationGetChallenge env s (Some rd))) pub =
           (if pub = Public (reqAIK rd) then ?c else clientOf s pub)"
    using a clientOf_update[OF l, of ?c pub] by simp
  have "findClient ((state s1)[i := ?c]) (Public (reqAIK rd))
          = findClient (state s1) (Public (reqAIK rd))"
    using ix by (simp add: findClient_update)
  then show "findClient (state (fst (activationGetChallenge env s (Some rd))))
               (Public (reqAIK rd)) \<noteq> None"
    using a ix(2) by simp
qed

text \<open>
  A challenge request succeeds only when the endorsement-key field holds a PEM block,
  the block's bytes parse as a public key and \<^verbatim>\<open>Generate\<close> returns for that key.
\<close>

lemma activationGetChallenge_succeeds_only_if:
  assumes "snd (activationGetChallenge env s (Some rd)) = HttpJSON resp"
  shows "\<exists>b ek secret.
           pemDecode env (EKPem rd) = Some b \<and> ParsePKCS1PublicKey env (Bytes b) = Inr ek
           \<and> Generate env \<lparr>apTPMVersion = TPMVersion rd, apEK = ek, apAIK = reqAIK rd\<rparr>
               = Inr (secret, ActivationChallenge resp)"
  using assms
  by (auto simp: activationGetChallenge_def EKPublic_def internalServerError_def
      split: option.splits sum.splits prod.splits)

text \<open>
  C6. A challenge request succeeds when the endorsement-key field of the request holds
  a PEM block whose bytes parse as a public key \<open>ek\<close>, and \<^verbatim>\<open>Generate\<close>, called with
  that key, the version and the attestation parameters of the request, returns a secret
  and an encrypted credential. The reply then carries the credential, and in the new
  state the registry holds a record for the presented public blob with \<open>ek\<close>, the key
  the request supplied, as endorsement key, the generated secret as pending secret,
  whatever was pending before, and the activated flag false. The handler is one
  transition under the server's lock. Of that record only these fields and the
  attestation parameters change, and no other record changes.
\<close>

theorem activationGetChallenge_success:
  assumes "pemDecode env (EKPem rd) = Some b"
    and "ParsePKCS1PublicKey env (Bytes b) = Inr ek"
    and "Generate env \<lparr>apTPMVersion = TPMVersion rd, apEK = ek, apAIK = reqAIK rd\<rparr>
           = Inr (secret, ec)"
  shows "snd (activationGetChallenge env s (Some rd))
           = HttpJSON \<lparr>ActivationChallenge = ec, respNonce = []\<rparr>
       \<and> findClient (state (fst (activationGetChallenge env s (Some rd)))) (Public (reqAIK rd))
           \<noteq> None
       \<and> EK (clientOf (fst (activationGetChallenge env s (Some rd))) (Public (reqAIK rd)))
           = Some ek
       \<and> ActivationSecret (clientOf (fst (activationGetChallenge env s (Some rd)))
            (Public (reqAIK rd))) = secret
       \<and> Activated (clientOf (fst (activationGetChallenge env s (Some rd)))
            (Public (reqAIK rd))) = False
       \<and> clientOf (fst (activationGetChallenge env s (Some rd))) pub =
           (if pub = Public (reqAIK rd)
            then (clientOf s (Public (reqAIK rd)))
                   \<lparr>AIK := reqAIK rd, ActivationSecret := secret, EK := Some ek,
                    Activated := False\<rparr>
            else clientOf s pub)"
proof -
  have k: "EKPublic env rd = Returned ek"
    using assms(1,2) by (simp add: EKPublic_def)
  show ?thesis
    using activationGetChallenge_Returned[OF k assms(3)] by simp
qed

theorem activationGetChallenge_success_witness:
  "EKPem challengeRequest = ekPEM
   \<and> pemDecode stubDeps ekPEM = Some \<lparr>BlockType = ''RSA PUBLIC KEY'', Bytes = ekDER\<rparr>
   \<and> ParsePKCS1PublicKey stubDeps ekDER = Inr \<lparr>modulusN = 3233, exponentE = 17\<rparr>
   \<and> ActivationSecret (clientOf pendingServer [1, 2, 3]) = [9, 9]
   \<and> snd (activationGetChallenge stubDeps pendingServer (Some challengeRequest))
       = HttpJSON \<lparr>ActivationChallenge = [4], respNonce = []\<rparr>
   \<and> EK (clientOf (fst (activationGetChallenge stubDeps pendingServer (Some challengeRequest)))
        (Public (reqAIK challengeRequest))) = Some \<lparr>modulusN = 3233, exponentE = 17\<rparr>
   \<and> ActivationSecret (clientOf (fst (activationGetChallenge stubDeps pendingServer
        (Some challengeRequest))) (Public (reqAIK challengeRequest))) = [8, 8]
   \<and> Activated (clientOf (fst (activationGetChallenge stubDeps pendingServer
        (Some challengeRequest))) (Public (reqAIK challengeRequest))) = False"
proof -
  have e: "EKPem challengeRequest = ekPEM"
    by (simp add: challengeRequest_def)
  have d: "pemDecode stubDeps ekPEM = Some \<lparr>BlockType = ''RSA PUBLIC KEY'', Bytes = ekDER\<rparr>"
    by (simp add: stubDeps_def)
  have h1: "pemDecode stubDeps (EKPem challengeRequest)
              = Some \<lparr>BlockType = ''RSA PUBLIC KEY'', Bytes = ekDER\<rparr>"
    using e d by simp
  have h2: "ParsePKCS1PublicKey stubDeps (Bytes \<lparr>BlockType = ''RSA PUBLIC KEY'', Bytes = ekDER\<rparr>)
              = Inr \<lparr>modulusN = 3233, exponentE = 17\<rparr>"
    by (simp add: stubDeps_def)
  have h3: "Generate stubDeps \<lparr>apTPMVersion = TPMVersion challengeRequest,
              apEK = \<lparr>modulusN = 3233, exponentE = 17\<rparr>, apAIK = reqAIK challengeRequest\<rparr>
            = Inr ([8, 8], [4])"
    by (simp add: stubDeps_def)
  have a: "ActivationSecret (clientOf pendingServer [1, 2, 3]) = [9, 9]"
    by (simp add: clientOf_pendingServer)
  show ?thesis
    using activationGetChallenge_success[OF h1 h2 h3, of pendingServer "[1, 2, 3]"] e d h2 a
    by auto
qed

text \<open>
  C7, where the code departs from it. When the endorsement-key field holds no PEM block,
  \<^verbatim>\<open>pem.Decode\<close> returns a nil block and \<^verbatim>\<open>EKPublic\<close> dereferences it: the handler
  panics. No error reply is written; the state is untouched.
\<close>

theorem activationGetChallenge_no_pem_block_panics:
  assumes "pemDecode env (EKPem rd) = None"
  shows "activationGetChallenge env s (Some rd) = (s, HandlerPanic)"
  using assms by (simp add: activationGetChallenge_def EKPublic_def)

theorem activationGetChallenge_no_pem_block_panics_witness:
  "EKPem demoRequest = [] \<and> pemDecode stubDeps [] = None
   \<and> activationGetChallenge stubDeps pendingServer (Some demoRequest)
       = (pendingServer, HandlerPanic)"
proof -
  have e: "EKPem demoRequest = []" by (simp add: demoRequest_def)
  have h: "pemDecode stubDeps (EKPem demoRequest) = None"
    by (simp add: stubDeps_def demoRequest_def ekPEM_def)
  show ?thesis
    using activationGetChallenge_no_pem_block_panics[OF h, of pendingServer] e h by simp
qed

text \<open>
  A PEM block whose bytes are not a PKCS1 public key, and a failing \<^verbatim>\<open>Generate\<close>, get
  the reply \<^verbatim>\<open>500 Internal server error\<close> and leave the state untouched.
\<close>

lemma activationGetChallenge_bad_key:
  assumes "pemDecode env (EKPem rd) = Some b" and "ParsePKCS1PublicKey env (Bytes b) = Inl err"
  shows "activationGetChallenge env s (Some rd) = (s, internalServerError)"
  using assms by (simp add: activationGetChallenge_def EKPublic_def)

lemma activationGetChallenge_Generate_fails:
  assumes "EKPublic env rd = Returned ek"
    and "Generate env \<lparr>apTPMVersion = TPMVersion rd, apEK = ek, apAIK = reqAIK rd\<rparr> = Inl err"
  shows "activationGetChallenge env s (Some rd) = (s, internalServerError)"
  using assms by (simp add: activationGetChallenge_def)

section \<open>Nonces and quotes\<close>

lemma getNonce_Some:
  "clientOf (fst (getNonce s (Some rd) rnd)) pub =
     (if pub = Public (reqAIK rd)
      then (clientOf s (Public (reqAIK rd)))\<lparr>Nonce := take 32 (rnd @ replicate 32 0)\<rparr>
      else clientOf s pub)"
proof -
  obtain s1 i where l: "server_clientInfo s (Public (reqAIK rd)) = (s1, i)"
    by (cases "server_clientInfo s (Public (reqAIK rd))")
  note ix = server_clientInfo_index[OF l]
  show ?thesis
    using l ix(3) ix(4)
      clientOf_update[OF l,
        of "(clientOf s (Public (reqAIK rd)))\<lparr>Nonce := take 32 (rnd @ replicate 32 0)\<rparr>" pub]
    by (simp add: getNonce_def Let_def)
qed

text \<open>The handler \<^verbatim>\<open>attest\<close> in terms of the record it looks up.\<close>

lemma attest_Some:
  "attest env s (Some rd) =
     (case VerifyQuote env (TPMVersion rd) (Public (reqAIK rd)) (Quote (reqQuote rd))
             (Signature (reqQuote rd)) (PCRs rd) (Nonce (clientOf s (Public (reqAIK rd)))) of
        Inl err \<Rightarrow> (fst (server_clientInfo s (Public (reqAIK rd))), internalServerError)
      | Inr q \<Rightarrow>
          ((fst (server_clientInfo s (Public (reqAIK rd))))
             \<lparr>state := (state (fst (server_clientInfo s (Public (reqAIK rd)))))
                [snd (server_clientInfo s (Public (reqAIK rd))) :=
                   (clientOf s (Public (reqAIK rd)))\<lparr>AttestResults := Some q\<rparr>]\<rparr>,
           HttpJSON emptyResponse))"
  by (simp add: attest_def clientOf_def split: prod.splits sum.splits)

lemma clientOf_attest:
  "clientOf (fst (attest env s (Some rd))) pub =
     (case VerifyQuote env (TPMVersion rd) (Public (reqAIK rd)) (Quote (reqQuote rd))
             (Signature (reqQuote rd)) (PCRs rd) (Nonce (clientOf s (Public (reqAIK rd)))) of
        Inl err \<Rightarrow> clientOf s pub
      | Inr q \<Rightarrow>
          if pub = Public (reqAIK rd)
          then (clientOf s (Public (reqAIK rd)))\<lparr>AttestResults := Some q\<rparr>
          else clientOf s pub)"
proof -
  obtain s1 i where l: "server_clientInfo s (Public (reqAIK rd)) = (s1, i)"
    by (cases "server_clientInfo s (Public (reqAIK rd))")
  note ix = server_clientInfo_index[OF l]
  have u: "\<And>q. clientOf (s1\<lparr>state := (state s1)
                    [i := (clientOf s (Public (reqAIK rd)))\<lparr>AttestResults := Some q\<rparr>]\<rparr>) pub
      = (if pub = Public (reqAIK rd)
         then (clientOf s (Public (reqAIK rd)))\<lparr>AttestResults := Some q\<rparr>
         else clientOf s pub)"
    using clientOf_update[OF l, of _ pub] ix(4) by simp
  have k: "clientOf s1 pub = clientOf s pub"
    using clientOf_after_lookup[of s "Public (reqAIK rd)" pub] l by simp
  show ?thesis
    using l u k by (simp add: attest_Some split: sum.splits)
qed

lemma nonceServer_eval:
  "clientOf nonceServer [1, 2, 3] = (newClientInfo [1, 2, 3])\<lparr>Nonce := replicate 32 5\<rparr>"
  by (simp add: nonceServer_def getNonce_Some clientOf_absent)

text \<open>
  C1, as the code has it. A quote is judged by \<^verbatim>\<open>VerifyQuote\<close> against the nonce stored
  in the record, and the verdict is stored in the record. The handler does not consume
  the nonce: after it, every record holds the nonce it held before, so a second
  quote-verification request for the same public blob is judged against the same nonce,
  and the same request repeated gets the same reply and the same verdict. Only a nonce
  request replaces the stored nonce.
\<close>

theorem attest_leaves_nonce:
  "AttestResults (clientOf (fst (attest env s (Some rd))) (Public (reqAIK rd)))
     = (case VerifyQuote env (TPMVersion rd) (Public (reqAIK rd)) (Quote (reqQuote rd))
               (Signature (reqQuote rd)) (PCRs rd) (Nonce (clientOf s (Public (reqAIK rd)))) of
          Inl err \<Rightarrow> AttestResults (clientOf s (Public (reqAIK rd)))
        | Inr q \<Rightarrow> Some q)
   \<and> Nonce (clientOf (fst (attest env s (Some rd))) pub) = Nonce (clientOf s pub)
   \<and> snd (attest env (fst (attest env s (Some rd))) (Some rd)) = snd (attest env s (Some rd))
   \<and> AttestResults (clientOf (fst (attest env (fst (attest env s (Some rd))) (Some rd))) pub)
       = AttestResults (clientOf (fst (attest env s (Some rd))) pub)
   \<and> Nonce (clientOf (fst (getNonce s (Some rd) rnd)) (Public (reqAIK rd)))
       = take 32 (rnd @ replicate 32 0)"
proof -
  have j: "AttestResults (clientOf (fst (attest env s (Some rd))) (Public (reqAIK rd)))
     = (case VerifyQuote env (TPMVersion rd) (Public (reqAIK rd)) (Quote (reqQuote rd))
               (Signature (reqQuote rd)) (PCRs rd) (Nonce (clientOf s (Public (reqAIK rd)))) of
          Inl err \<Rightarrow> AttestResults (clientOf s (Public (reqAIK rd)))
        | Inr q \<Rightarrow> Some q)"
    by (simp add: clientOf_attest split: sum.splits)
  have n: "\<And>t p. Nonce (clientOf (fst (attest env t (Some rd))) p) = Nonce (clientOf t p)"
    by (simp add: clientOf_attest split: sum.splits)
  have r: "snd (attest env (fst (attest env s (Some rd))) (Some rd)) = snd (attest env s (Some rd))"
    by (simp add: attest_Some[of env "fst (attest env s (Some rd))"] n)
       (simp add: attest_Some split: sum.splits)
  have a: "AttestResults (clientOf (fst (attest env (fst (attest env s (Some rd))) (Some rd))) pub)
       = AttestResults (clientOf (fst (attest env s (Some rd))) pub)"
    by (simp add: clientOf_attest[of env "fst (attest env s (Some rd))"] n)
       (simp add: clientOf_attest split: sum.splits)
  have g: "Nonce (clientOf (fst (getNonce s (Some rd) rnd)) (Public (reqAIK rd)))
       = take 32 (rnd @ replicate 32 0)"
    by (simp add: getNonce_Some)
  show ?thesis using j n r a g by simp
qed

theorem attest_leaves_nonce_witness:
  "Nonce (clientOf nonceServer [1, 2, 3]) = replicate 32 5
   \<and> Nonce (clientOf (fst (attest stubDeps nonceServer (Some goodQuote))) [1, 2, 3])
       = replicate 32 5
   \<and> snd (attest stubDeps (fst (attest stubDeps nonceServer (Some goodQuote))) (Some goodQuote))
       = snd (attest stubDeps nonceServer (Some goodQuote))"
proof -
  have n: "Nonce (clientOf nonceServer [1, 2, 3]) = replicate 32 5"
    by (simp add: nonceServer_eval)
  show ?thesis
    using attest_leaves_nonce[of stubDeps nonceServer goodQuote "[1, 2, 3]"] n by simp
qed

text \<open>
  C1 as the spec states it fails. After one nonce request for the key \<open>[1, 2, 3]\<close>, a
  quote bound to the issued nonce is judged valid; a quote bound to another challenge is
  then judged against the same nonce and rejected for a nonce mismatch; and the first
  quote, sent once more with no nonce request in between, is judged valid against the
  same nonce again.
\<close>

theorem attest_nonce_reused:
  "Nonce (clientOf nonceServer [1, 2, 3]) = replicate 32 5
   \<and> AttestResults (clientOf (fst (attest stubDeps nonceServer (Some goodQuote))) [1, 2, 3])
       = Some \<lparr>QSucceeded = True, SignatureMismatch = False, PcrDigest = [170],
               PcrDigestMismatch = False, NonceMismatch = False\<rparr>
   \<and> AttestResults (clientOf (fst (attest stubDeps (fst (attest stubDeps nonceServer
        (Some goodQuote))) (Some badQuote))) [1, 2, 3])
       = Some \<lparr>QSucceeded = False, SignatureMismatch = False, PcrDigest = [170],
               PcrDigestMismatch = False, NonceMismatch = True\<rparr>
   \<and> AttestResults (clientOf (fst (attest stubDeps (fst (attest stubDeps (fst (attest stubDeps
        nonceServer (Some goodQuote))) (Some badQuote))) (Some goodQuote))) [1, 2, 3])
       = Some \<lparr>QSucceeded = True, SignatureMismatch = False, PcrDigest = [170],
               PcrDigestMismatch = False, NonceMismatch = False\<rparr>
   \<and> Nonce (clientOf (fst (attest stubDeps (fst (attest stubDeps (fst (attest stubDeps
        nonceServer (Some goodQuote))) (Some badQuote))) (Some goodQuote))) [1, 2, 3])
       = replicate 32 5"
  by (simp add: clientOf_attest nonceServer_eval stubDeps_def VerifyQuote_spec_def
      goodQuote_def badQuote_def demoRequest_def demoAIK_def)

section \<open>Building the trust store\<close>

text \<open>A non-empty extension is a suffix of the name.\<close>

lemma extScan_suffix:
  "extScan r seen = e \<Longrightarrow> e \<noteq> [] \<Longrightarrow> suffix e (rev r @ seen)"
proof (induction r arbitrary: seen)
  case Nil
  then show ?case by simp
next
  case (Cons c cs)
  show ?case
  proof (cases "c = CHR ''/''")
    case True
    then show ?thesis using Cons.prems by simp
  next
    case False
    show ?thesis
    proof (cases "c = CHR ''.''")
      case True
      then have "e = c # seen" using Cons.prems by simp
      then show ?thesis by (simp add: suffix_def)
    next
      case notdot: False
      then have "extScan cs (c # seen) = e" using False Cons.prems by simp
      then have "suffix e (rev cs @ c # seen)" using Cons.IH Cons.prems(2) by blast
      then show ?thesis by simp
    qed
  qed
qed

lemma Ext_suffix: "Ext p = e \<Longrightarrow> e \<noteq> [] \<Longrightarrow> suffix e p"
  using extScan_suffix[of "rev p" "[]" e] by (simp add: Ext_def)

text \<open>
  The switch of \<^verbatim>\<open>parseCertsToPool\<close> on \<^verbatim>\<open>filepath.Ext\<close> selects exactly the names
  that end in the extension.
\<close>

lemma Ext_der: "Ext name = ''.der'' \<longleftrightarrow> suffix ''.der'' name"
proof
  assume "Ext name = ''.der''"
  then show "suffix ''.der'' name" using Ext_suffix by fastforce
next
  assume "suffix ''.der'' name"
  then obtain q where "name = q @ ''.der''" by (auto simp: suffix_def)
  then show "Ext name = ''.der''" by (simp add: Ext_def)
qed

lemma Ext_crt: "Ext name = ''.crt'' \<longleftrightarrow> suffix ''.crt'' name"
proof
  assume "Ext name = ''.crt''"
  then show "suffix ''.crt'' name" using Ext_suffix by fastforce
next
  assume "suffix ''.crt'' name"
  then obtain q where "name = q @ ''.crt''" by (auto simp: suffix_def)
  then show "Ext name = ''.crt''" by (simp add: Ext_def)
qed

lemma Ext_cer: "Ext name = ''.cer'' \<longleftrightarrow> suffix ''.cer'' name"
proof
  assume "Ext name = ''.cer''"
  then show "suffix ''.cer'' name" using Ext_suffix by fastforce
next
  assume "suffix ''.cer'' name"
  then obtain q where "name = q @ ''.cer''" by (auto simp: suffix_def)
  then show "Ext name = ''.cer''" by (simp add: Ext_def)
qed

lemma parseCertFile_skip:
  "\<not> hasCertSuffix (Name info) \<Longrightarrow> parseCertFile lib path info pool = Returned pool"
  by (simp add: parseCertFile_def hasCertSuffix_def Ext_der Ext_crt Ext_cer)

lemma parseCertsToPool_filter:
  "parseCertsToPool lib path (filter (\<lambda>info. IsDir info \<or> hasCertSuffix (Name info)) files) pool
     = parseCertsToPool lib path files pool"
  by (induction files arbitrary: pool) (auto simp: parseCertFile_skip split: result.splits)

lemma Join_examples:
  "Join ''/c'' ''Acme'' = ''/c/Acme''" "Join ''/c'' ''Bolt'' = ''/c/Bolt''"
  "Join ''/c'' ''README'' = ''/c/README''"
  "Join ''/c/Acme'' ''RootCA'' = ''/c/Acme/RootCA''"
  "Join ''/c/Acme'' ''IntermediateCA'' = ''/c/Acme/IntermediateCA''"
  "Join ''/c/Bolt'' ''RootCA'' = ''/c/Bolt/RootCA''"
  "Join ''/c/Bolt'' ''IntermediateCA'' = ''/c/Bolt/IntermediateCA''"
  "Join ''/c/Bolt/RootCA'' ''root.der'' = ''/c/Bolt/RootCA/root.der''"
  "Join ''/c/Bolt/RootCA'' ''notes.pem'' = ''/c/Bolt/RootCA/notes.pem''"
  "Join ''/d'' ''Core'' = ''/d/Core''" "Join ''/d'' ''Vault'' = ''/d/Vault''"
  "Join ''/d/Core'' ''RootCA'' = ''/d/Core/RootCA''"
  "Join ''/d/Core'' ''IntermediateCA'' = ''/d/Core/IntermediateCA''"
  "Join ''/d/Core/IntermediateCA'' ''ca.crt'' = ''/d/Core/IntermediateCA/ca.crt''"
  "Join ''/d/Vault'' ''RootCA'' = ''/d/Vault/RootCA''"
  "Join ''/d/Vault'' ''IntermediateCA'' = ''/d/Vault/IntermediateCA''"
  by (simp_all add: Join_def Clean_def cleanElement_def)

lemma demoFS_simps:
  "ReadDir demoFS ''/c'' = Inr [\<lparr>Name = ''Acme'', IsDir = True\<rparr>, \<lparr>Name = ''Bolt'', IsDir = True\<rparr>,
                                \<lparr>Name = ''README'', IsDir = False\<rparr>]"
  "ReadDir demoFS ''/c/Acme/RootCA'' = Inl ErrNotExist"
  "ReadDir demoFS ''/c/Acme/IntermediateCA'' = Inl ErrNotExist"
  "ReadDir demoFS ''/c/Bolt/RootCA'' = Inr [\<lparr>Name = ''notes.pem'', IsDir = False\<rparr>,
                                            \<lparr>Name = ''root.der'', IsDir = False\<rparr>]"
  "ReadDir demoFS ''/c/Bolt/IntermediateCA'' = Inl ErrNotExist"
  "ReadDir demoFS ''/d'' = Inr [\<lparr>Name = ''Core'', IsDir = True\<rparr>, \<lparr>Name = ''Vault'', IsDir = True\<rparr>]"
  "ReadDir demoFS ''/d/Core/RootCA'' = Inl ErrNotExist"
  "ReadDir demoFS ''/d/Core/IntermediateCA'' = Inr [\<lparr>Name = ''ca.crt'', IsDir = False\<rparr>]"
  "ReadDir demoFS ''/d/Vault/RootCA'' = Inl ErrPermission"
  "ReadFile demoFS ''/c/Bolt/RootCA/root.der'' = Inr [48, 1]"
  "ReadFile demoFS ''/c/Bolt/RootCA/notes.pem'' = Inl ErrPermission"
  "ReadFile demoFS ''/d/Core/IntermediateCA/ca.crt'' = Inr [48, 5]"
  "ParseCertificate demoFS [48, 1] = (Some boltRoot, None)"
  "ParseCertificate demoFS [48, 5] = (Some coreCA, None)"
  by (simp_all add: demoFS_def)

lemma Ext_examples:
  "Ext ''root.der'' = ''.der''" "Ext ''notes.pem'' = ''.pem''" "Ext ''ca.crt'' = ''.crt''"
  by (simp_all add: Ext_def)

text \<open>
  C10. A file of a \<^verbatim>\<open>RootCA\<close> or \<^verbatim>\<open>IntermediateCA\<close> listing whose name does not end
  in \<^verbatim>\<open>.der\<close>, \<^verbatim>\<open>.crt\<close> or \<^verbatim>\<open>.cer\<close> is passed over: whatever the file system and
  the parser would answer for it, the loop body returns the pool as it was and no error,
  and the whole loop gives what it gives on the listing without such files.
\<close>

theorem parseCertsToPool_skips_other_names:
  "(\<not> IsDir info \<and> \<not> hasCertSuffix (Name info)
      \<longrightarrow> parseCertFile lib path info pool = Returned pool)
   \<and> parseCertsToPool lib path files pool
       = parseCertsToPool lib path
           (filter (\<lambda>info. IsDir info \<or> hasCertSuffix (Name info)) files) pool"
  by (simp add: parseCertFile_skip parseCertsToPool_filter)

theorem parseCertsToPool_skips_other_names_witness:
  "\<not> IsDir \<lparr>Name = ''notes.pem'', IsDir = False\<rparr>
   \<and> \<not> hasCertSuffix (Name \<lparr>Name = ''notes.pem'', IsDir = False\<rparr>)
   \<and> ReadFile demoFS (Join ''/c/Bolt/RootCA'' ''notes.pem'') = Inl ErrPermission
   \<and> parseCertFile demoFS ''/c/Bolt/RootCA'' \<lparr>Name = ''notes.pem'', IsDir = False\<rparr> []
       = Returned []
   \<and> parseCertsToPool demoFS ''/c/Bolt/RootCA''
        [\<lparr>Name = ''notes.pem'', IsDir = False\<rparr>, \<lparr>Name = ''root.der'', IsDir = False\<rparr>] []
       = parseCertsToPool demoFS ''/c/Bolt/RootCA'' [\<lparr>Name = ''root.der'', IsDir = False\<rparr>] []"
proof -
  have h: "\<not> hasCertSuffix ''notes.pem''" "hasCertSuffix ''root.der''"
    by (simp_all add: hasCertSuffix_def Ext_der[symmetric] Ext_crt[symmetric]
        Ext_cer[symmetric] Ext_def)
  have r: "ReadFile demoFS (Join ''/c/Bolt/RootCA'' ''notes.pem'') = Inl ErrPermission"
    by (simp add: Join_examples demoFS_simps)
  show ?thesis
    using parseCertsToPool_skips_other_names[
        where info = "\<lparr>Name = ''notes.pem'', IsDir = False\<rparr>" and lib = demoFS
          and path = "''/c/Bolt/RootCA''" and pool = "[]"
          and files = "[\<lparr>Name = ''notes.pem'', IsDir = False\<rparr>,
                        \<lparr>Name = ''root.der'', IsDir = False\<rparr>]"] h r
    by simp
qed

lemma readCertificates_root_missing:
  assumes "dirMissing lib (Join dir ''RootCA'')"
  shows "readCertificates lib dir rootPool intermediatePool =
           (case ReadDir lib (Join dir ''IntermediateCA'') of
              Inl err \<Rightarrow>
                if IsNotExist err then Returned (rootPool, intermediatePool)
                else Failed (ReadError err)
            | Inr intermediateFiles \<Rightarrow>
                (case parseCertsToPool lib (Join dir ''IntermediateCA'') intermediateFiles
                        intermediatePool of
                   Panicked \<Rightarrow> Panicked
                 | Failed err \<Rightarrow> Failed err
                 | Returned intermediatePool' \<Rightarrow> Returned (rootPool, intermediatePool')))"
  using assms by (auto simp: readCertificates_def dirMissing_def split: sum.splits)

lemma readCertificates_intermediate_missing:
  assumes "dirMissing lib (Join dir ''IntermediateCA'')"
  shows "readCertificates lib dir rootPool intermediatePool =
           (case (case ReadDir lib (Join dir ''RootCA'') of
                    Inl err \<Rightarrow>
                      if \<not> IsNotExist err then Failed (ReadError err) else Returned rootPool
                  | Inr rootFiles \<Rightarrow>
                      parseCertsToPool lib (Join dir ''RootCA'') rootFiles rootPool) of
              Panicked \<Rightarrow> Panicked
            | Failed err \<Rightarrow> Failed err
            | Returned rootPool' \<Rightarrow> Returned (rootPool', intermediatePool))"
  using assms by (auto simp: readCertificates_def dirMissing_def split: sum.splits result.splits)

text \<open>
  What \<^verbatim>\<open>readCertificates\<close> returns for a manufacturer directory \<open>dir\<close> when one of
  its two directories, or both, do not exist, and when \<^verbatim>\<open>RootCA\<close> cannot be read for
  another reason.
\<close>

lemma readCertificates_missing_directories:
  "(dirMissing lib (Join dir ''IntermediateCA'')
        \<and> ReadDir lib (Join dir ''RootCA'') = Inr rootFiles
        \<and> parseCertsToPool lib (Join dir ''RootCA'') rootFiles rootPool = Returned rootPool'
      \<longrightarrow> readCertificates lib dir rootPool intermediatePool
            = Returned (rootPool', intermediatePool))
   \<and> (dirMissing lib (Join dir ''RootCA'') \<and> dirMissing lib (Join dir ''IntermediateCA'')
      \<longrightarrow> readCertificates lib dir rootPool intermediatePool
            = Returned (rootPool, intermediatePool)
        \<and> (IsDir f \<and> Join parent (Name f) = dir
             \<longrightarrow> readManufacturers lib parent (f # fs) rootPool intermediatePool
                 = readManufacturers lib parent fs rootPool intermediatePool))
   \<and> (dirMissing lib (Join dir ''RootCA'')
        \<and> ReadDir lib (Join dir ''IntermediateCA'') = Inr intermediateFiles
        \<and> parseCertsToPool lib (Join dir ''IntermediateCA'') intermediateFiles intermediatePool
            = Returned intermediatePool'
      \<longrightarrow> readCertificates lib dir rootPool intermediatePool
            = Returned (rootPool, intermediatePool'))
   \<and> (ReadDir lib (Join dir ''RootCA'') = Inl err \<and> \<not> IsNotExist err
      \<longrightarrow> readCertificates lib dir rootPool intermediatePool = Failed (ReadError err))"
proof (intro conjI impI)
  assume "dirMissing lib (Join dir ''IntermediateCA'')
      \<and> ReadDir lib (Join dir ''RootCA'') = Inr rootFiles
      \<and> parseCertsToPool lib (Join dir ''RootCA'') rootFiles rootPool = Returned rootPool'"
  then show "readCertificates lib dir rootPool intermediatePool
               = Returned (rootPool', intermediatePool)"
    by (simp add: readCertificates_intermediate_missing)
next
  assume a: "dirMissing lib (Join dir ''RootCA'') \<and> dirMissing lib (Join dir ''IntermediateCA'')"
  then show b: "readCertificates lib dir rootPool intermediatePool
                  = Returned (rootPool, intermediatePool)"
    by (auto simp: readCertificates_root_missing dirMissing_def split: sum.splits)
  assume "IsDir f \<and> Join parent (Name f) = dir"
  then show "readManufacturers lib parent (f # fs) rootPool intermediatePool
                 = readManufacturers lib parent fs rootPool intermediatePool"
    using b by simp
next
  assume "dirMissing lib (Join dir ''RootCA'')
        \<and> ReadDir lib (Join dir ''IntermediateCA'') = Inr intermediateFiles
        \<and> parseCertsToPool lib (Join dir ''IntermediateCA'') intermediateFiles intermediatePool
            = Returned intermediatePool'"
  then show "readCertificates lib dir rootPool intermediatePool
               = Returned (rootPool, intermediatePool')"
    by (simp add: readCertificates_root_missing)
next
  assume "ReadDir lib (Join dir ''RootCA'') = Inl err \<and> \<not> IsNotExist err"
  then show "readCertificates lib dir rootPool intermediatePool = Failed (ReadError err)"
    by (simp add: readCertificates_def)
qed

text \<open>The two loops of \<^verbatim>\<open>NewEKVerifier\<close> go through a list part by part.\<close>

lemma readManufacturers_append:
  "readManufacturers lib dir (fs @ gs) rootPool intermediatePool =
     (case readManufacturers lib dir fs rootPool intermediatePool of
        Panicked \<Rightarrow> Panicked
      | Failed err \<Rightarrow> Failed err
      | Returned (rootPool', intermediatePool') \<Rightarrow>
          readManufacturers lib dir gs rootPool' intermediatePool')"
  by (induction fs arbitrary: rootPool intermediatePool) (auto split: result.splits)

lemma readCertsPath_append:
  "readCertsPath lib (ds @ es) rootPool intermediatePool =
     (case readCertsPath lib ds rootPool intermediatePool of
        Panicked \<Rightarrow> Panicked
      | Failed err \<Rightarrow> Failed err
      | Returned (rootPool', intermediatePool') \<Rightarrow>
          readCertsPath lib es rootPool' intermediatePool')"
  by (induction ds arbitrary: rootPool intermediatePool) (auto split: result.splits sum.splits)

text \<open>
  The construction up to a manufacturer directory \<open>f\<close>: the directories \<open>before\<close> and
  the entries \<open>pre\<close> of \<open>parent\<close> have been read without error.
\<close>

lemma NewEKVerifier_at_manufacturer:
  assumes "readCertsPath lib before [] [] = Returned (r0, i0)"
    and "ReadDir lib parent = Inr (pre @ f # post)"
    and "readManufacturers lib parent pre r0 i0 = Returned (r1, i1)"
    and "IsDir f"
  shows "NewEKVerifier lib (before @ parent # after) =
           (case readCertificates lib (Join parent (Name f)) r1 i1 of
              Panicked \<Rightarrow> Panicked
            | Failed err \<Rightarrow> Failed err
            | Returned (r2, i2) \<Rightarrow> constructFrom lib parent post after r2 i2)"
  using assms
  by (simp add: NewEKVerifier_def readCertsPath_append readManufacturers_append constructFrom_def
      split: result.splits prod.splits)

text \<open>
  C2, as the code has it. \<^verbatim>\<open>NewEKVerifier\<close> has read the directories \<open>before\<close> and
  the entries \<open>pre\<close> of the directory \<open>parent\<close> without error and comes to the
  manufacturer subdirectory \<open>f\<close> of \<open>parent\<close>. When the \<^verbatim>\<open>IntermediateCA\<close> directory
  of \<open>f\<close> does not exist and its root certificates are read, construction proceeds with
  the roots added and the intermediates as they were. When the \<^verbatim>\<open>RootCA\<close> directory
  of \<open>f\<close> does not exist it is passed over in the same way: with both directories
  missing construction proceeds with both pools as they were, and with only \<^verbatim>\<open>RootCA\<close>
  missing it proceeds with the intermediates of \<open>f\<close> added. When \<^verbatim>\<open>RootCA\<close> cannot be
  read for any other reason, \<^verbatim>\<open>NewEKVerifier\<close> fails with that error.
\<close>

theorem NewEKVerifier_missing_directories:
  assumes "readCertsPath lib before [] [] = Returned (r0, i0)"
    and "ReadDir lib parent = Inr (pre @ f # post)"
    and "readManufacturers lib parent pre r0 i0 = Returned (r1, i1)"
    and "IsDir f"
  shows "(dirMissing lib (Join (Join parent (Name f)) ''IntermediateCA'')
            \<and> ReadDir lib (Join (Join parent (Name f)) ''RootCA'') = Inr rootFiles
            \<and> parseCertsToPool lib (Join (Join parent (Name f)) ''RootCA'') rootFiles r1
                = Returned r2
          \<longrightarrow> NewEKVerifier lib (before @ parent # after)
                = constructFrom lib parent post after r2 i1)
       \<and> (dirMissing lib (Join (Join parent (Name f)) ''RootCA'')
            \<and> dirMissing lib (Join (Join parent (Name f)) ''IntermediateCA'')
          \<longrightarrow> NewEKVerifier lib (before @ parent # after)
                = constructFrom lib parent post after r1 i1)
       \<and> (dirMissing lib (Join (Join parent (Name f)) ''RootCA'')
            \<and> ReadDir lib (Join (Join parent (Name f)) ''IntermediateCA'') = Inr intermediateFiles
            \<and> parseCertsToPool lib (Join (Join parent (Name f)) ''IntermediateCA'')
                 intermediateFiles i1 = Returned i2
          \<longrightarrow> NewEKVerifier lib (before @ parent # after)
                = constructFrom lib parent post after r1 i2)
       \<and> (ReadDir lib (Join (Join parent (Name f)) ''RootCA'') = Inl err \<and> \<not> IsNotExist err
          \<longrightarrow> NewEKVerifier lib (before @ parent # after) = Failed (ReadError err))"
proof -
  note at = NewEKVerifier_at_manufacturer[OF assms, of after]
  note rc = readCertificates_missing_directories[
      where lib = lib and dir = "Join parent (Name f)" and rootPool = r1
        and intermediatePool = i1]
  show ?thesis
  proof (intro conjI impI)
    assume "dirMissing lib (Join (Join parent (Name f)) ''IntermediateCA'')
            \<and> ReadDir lib (Join (Join parent (Name f)) ''RootCA'') = Inr rootFiles
            \<and> parseCertsToPool lib (Join (Join parent (Name f)) ''RootCA'') rootFiles r1
                = Returned r2"
    then have "readCertificates lib (Join parent (Name f)) r1 i1 = Returned (r2, i1)"
      using rc by blast
    then show "NewEKVerifier lib (before @ parent # after)
                 = constructFrom lib parent post after r2 i1"
      using at by simp
  next
    assume "dirMissing lib (Join (Join parent (Name f)) ''RootCA'')
            \<and> dirMissing lib (Join (Join parent (Name f)) ''IntermediateCA'')"
    then have "readCertificates lib (Join parent (Name f)) r1 i1 = Returned (r1, i1)"
      using rc by blast
    then show "NewEKVerifier lib (before @ parent # after)
                 = constructFrom lib parent post after r1 i1"
      using at by simp
  next
    assume "dirMissing lib (Join (Join parent (Name f)) ''RootCA'')
            \<and> ReadDir lib (Join (Join parent (Name f)) ''IntermediateCA'') = Inr intermediateFiles
            \<and> parseCertsToPool lib (Join (Join parent (Name f)) ''IntermediateCA'')
                 intermediateFiles i1 = Returned i2"
    then have "readCertificates lib (Join parent (Name f)) r1 i1 = Returned (r1, i2)"
      using rc by blast
    then show "NewEKVerifier lib (before @ parent # after)
                 = constructFrom lib parent post after r1 i2"
      using at by simp
  next
    assume "ReadDir lib (Join (Join parent (Name f)) ''RootCA'') = Inl err \<and> \<not> IsNotExist err"
    then have "readCertificates lib (Join parent (Name f)) r1 i1 = Failed (ReadError err)"
      using rc by blast
    then show "NewEKVerifier lib (before @ parent # after) = Failed (ReadError err)"
      using at by simp
  qed
qed

lemma demo_missing:
  "dirMissing demoFS (Join (Join ''/c'' ''Acme'') ''RootCA'')"
  "dirMissing demoFS (Join (Join ''/c'' ''Acme'') ''IntermediateCA'')"
  "dirMissing demoFS (Join (Join ''/c'' ''Bolt'') ''IntermediateCA'')"
  "dirMissing demoFS (Join (Join ''/d'' ''Core'') ''RootCA'')"
  by (simp_all add: dirMissing_def Join_examples demoFS_simps)

lemma demo_construction:
  "readCertsPath demoFS [] [] [] = Returned ([], [])"
  "readManufacturers demoFS ''/c'' [] [] [] = Returned ([], [])"
  "readManufacturers demoFS ''/c'' [\<lparr>Name = ''Acme'', IsDir = True\<rparr>] [] [] = Returned ([], [])"
  "readCertsPath demoFS [''/c''] [] [] = Returned ([boltRoot], [])"
  "readManufacturers demoFS ''/d'' [] [boltRoot] [] = Returned ([boltRoot], [])"
  "readManufacturers demoFS ''/d'' [\<lparr>Name = ''Core'', IsDir = True\<rparr>] [boltRoot] []
     = Returned ([boltRoot], [coreCA])"
  "constructFrom demoFS ''/c'' [\<lparr>Name = ''Bolt'', IsDir = True\<rparr>, \<lparr>Name = ''README'', IsDir = False\<rparr>]
     [] [] [] = Returned \<lparr>roots = [boltRoot], intermediates = []\<rparr>"
  "constructFrom demoFS ''/c'' [\<lparr>Name = ''README'', IsDir = False\<rparr>] [] [boltRoot] []
     = Returned \<lparr>roots = [boltRoot], intermediates = []\<rparr>"
  "constructFrom demoFS ''/d'' [\<lparr>Name = ''Vault'', IsDir = True\<rparr>] [] [boltRoot] [coreCA]
     = Failed (ReadError ErrPermission)"
  by (simp_all add: constructFrom_def readCertificates_def parseCertFile_def Ext_examples
      Join_examples demoFS_simps AddCert_def boltRoot_def coreCA_def)

theorem NewEKVerifier_missing_directories_witness:
  "dirMissing demoFS (Join (Join ''/c'' ''Acme'') ''RootCA'')
   \<and> dirMissing demoFS (Join (Join ''/c'' ''Acme'') ''IntermediateCA'')
   \<and> NewEKVerifier demoFS [''/c''] = Returned \<lparr>roots = [boltRoot], intermediates = []\<rparr>
   \<and> dirMissing demoFS (Join (Join ''/d'' ''Core'') ''RootCA'')
   \<and> ReadDir demoFS (Join (Join ''/d'' ''Vault'') ''RootCA'') = Inl ErrPermission
   \<and> NewEKVerifier demoFS [''/c'', ''/d''] = Failed (ReadError ErrPermission)"
proof -
  let ?Acme = "\<lparr>Name = ''Acme'', IsDir = True\<rparr>"
  let ?Bolt = "\<lparr>Name = ''Bolt'', IsDir = True\<rparr>"
  let ?README = "\<lparr>Name = ''README'', IsDir = False\<rparr>"
  let ?Core = "\<lparr>Name = ''Core'', IsDir = True\<rparr>"
  let ?Vault = "\<lparr>Name = ''Vault'', IsDir = True\<rparr>"
  have lc: "ReadDir demoFS ''/c'' = Inr ([] @ ?Acme # [?Bolt, ?README])"
    and lb: "ReadDir demoFS ''/c'' = Inr ([?Acme] @ ?Bolt # [?README])"
    and ld: "ReadDir demoFS ''/d'' = Inr ([] @ ?Core # [?Vault])"
    and lv: "ReadDir demoFS ''/d'' = Inr ([?Core] @ ?Vault # [])"
    by (simp_all add: demoFS_simps)
  have d: "IsDir ?Acme" "IsDir ?Bolt" "IsDir ?Core" "IsDir ?Vault" by simp_all
  have br: "ReadDir demoFS (Join (Join ''/c'' (Name ?Bolt)) ''RootCA'')
              = Inr [\<lparr>Name = ''notes.pem'', IsDir = False\<rparr>, \<lparr>Name = ''root.der'', IsDir = False\<rparr>]"
    and bp: "parseCertsToPool demoFS (Join (Join ''/c'' (Name ?Bolt)) ''RootCA'')
               [\<lparr>Name = ''notes.pem'', IsDir = False\<rparr>, \<lparr>Name = ''root.der'', IsDir = False\<rparr>] []
             = Returned [boltRoot]"
    and ci: "ReadDir demoFS (Join (Join ''/d'' (Name ?Core)) ''IntermediateCA'')
              = Inr [\<lparr>Name = ''ca.crt'', IsDir = False\<rparr>]"
    and cp: "parseCertsToPool demoFS (Join (Join ''/d'' (Name ?Core)) ''IntermediateCA'')
               [\<lparr>Name = ''ca.crt'', IsDir = False\<rparr>] [] = Returned [coreCA]"
    and vr: "ReadDir demoFS (Join (Join ''/d'' (Name ?Vault)) ''RootCA'') = Inl ErrPermission"
    by (simp_all add: parseCertFile_def Ext_examples Join_examples demoFS_simps AddCert_def)
  note acme = NewEKVerifier_missing_directories[
      where before = "[]" and after = "[]", OF demo_construction(1) lc demo_construction(2) d(1)]
  note bolt = NewEKVerifier_missing_directories[
      where before = "[]" and after = "[]" and rootFiles =
        "[\<lparr>Name = ''notes.pem'', IsDir = False\<rparr>, \<lparr>Name = ''root.der'', IsDir = False\<rparr>]"
        and ?r2.0 = "[boltRoot]",
      OF demo_construction(1) lb demo_construction(3) d(2)]
  note core = NewEKVerifier_missing_directories[
      where before = "[''/c'']" and after = "[]"
        and intermediateFiles = "[\<lparr>Name = ''ca.crt'', IsDir = False\<rparr>]" and ?i2.0 = "[coreCA]",
      OF demo_construction(4) ld demo_construction(5) d(3)]
  note vault = NewEKVerifier_missing_directories[
      where before = "[''/c'']" and after = "[]" and err = ErrPermission,
      OF demo_construction(4) lv demo_construction(6) d(4)]
  have a: "NewEKVerifier demoFS [''/c''] = Returned \<lparr>roots = [boltRoot], intermediates = []\<rparr>"
    using acme demo_missing demo_construction(7) by simp
  have b: "NewEKVerifier demoFS [''/c''] = Returned \<lparr>roots = [boltRoot], intermediates = []\<rparr>"
    using bolt demo_missing br bp demo_construction(8) by simp
  have c: "NewEKVerifier demoFS [''/c'', ''/d''] = Failed (ReadError ErrPermission)"
    using core demo_missing ci cp demo_construction(9) by simp
  have v: "NewEKVerifier demoFS [''/c'', ''/d''] = Failed (ReadError ErrPermission)"
    using vault vr by simp
  show ?thesis using a b c v demo_missing vr by simp
qed

text \<open>
  C2 as the spec states it fails. The manufacturer directory \<^verbatim>\<open>/c/Acme\<close> has no
  \<^verbatim>\<open>RootCA\<close> directory, and the construction over \<^verbatim>\<open>/c\<close> returns a verifier, with
  the root of the other manufacturer, instead of an error.
\<close>

theorem NewEKVerifier_without_RootCA:
  "ReadDir demoFS ''/c'' = Inr [\<lparr>Name = ''Acme'', IsDir = True\<rparr>, \<lparr>Name = ''Bolt'', IsDir = True\<rparr>,
                                \<lparr>Name = ''README'', IsDir = False\<rparr>]
   \<and> ReadDir demoFS (Join ''/c/Acme'' ''RootCA'') = Inl ErrNotExist
   \<and> NewEKVerifier demoFS [''/c''] = Returned \<lparr>roots = [boltRoot], intermediates = []\<rparr>"
  by (simp add: NewEKVerifier_def readCertificates_def parseCertFile_def Ext_examples
      Join_examples demoFS_simps AddCert_def)

section \<open>Verifying an endorsement certificate\<close>

text \<open>
  C8. Take a certificate that parses (possibly with non-fatal errors), and let
  \<^verbatim>\<open>Verify\<close> return either an error or, as the library does when the error is nil, at
  least one chain. Then \<^verbatim>\<open>VerifyEKCert\<close> returns a result record; in it succeeded and
  chain_verified agree, and they hold exactly when a chain was built (the error is nil);
  on success the record lists, in the order of the first chain, issuer common name,
  issuer organization and serial number of each certificate, and the error text is
  empty; on failure verification_error is the error's text (non-empty when that text
  is), chain_verified is false and the chain is empty.
\<close>

theorem VerifyEKCert_result:
  assumes "ParseCertificate lib certBytes = (Some c, perr)"
    and "\<not> fatalParse perr"
    and "Verify lib (c\<lparr>UnhandledCriticalExtensions := []\<rparr>)
           \<lparr>Roots = roots v, Intermediates = intermediates v, KeyUsages = [ExtKeyUsageAny]\<rparr>
         = (certChains, verificationErr)"
    and "verificationErr = None \<longrightarrow> certChains \<noteq> []"
  shows "case VerifyEKCert lib v certBytes of
           Returned out \<Rightarrow>
             (Succeeded out \<longleftrightarrow> ChainVerified out)
             \<and> (ChainVerified out \<longleftrightarrow> verificationErr = None)
             \<and> (verificationErr = None \<longrightarrow>
                  Chain out = map (\<lambda>cert. \<lparr>IssuerCn = CommonName (Issuer cert),
                                            IssuerOrg = stringsJoin (Organization (Issuer cert)) '' '',
                                            Serial = bigIntString (SerialNumber cert)\<rparr>)
                                  (hd certChains)
                  \<and> VerificationError out = [])
             \<and> (\<forall>e. verificationErr = Some e \<longrightarrow>
                  VerificationError out = e \<and> (e \<noteq> [] \<longrightarrow> VerificationError out \<noteq> [])
                  \<and> \<not> ChainVerified out \<and> Chain out = [])
         | Failed err \<Rightarrow> False
         | Panicked \<Rightarrow> False"
proof (cases verificationErr)
  case None
  then obtain chain others where "certChains = chain # others"
    using assms(4) by (cases certChains) auto
  then show ?thesis using assms None
    by (cases perr) (auto simp: VerifyEKCert_def certSummary_def)
next
  case (Some e)
  then show ?thesis using assms
    by (cases perr) (auto simp: VerifyEKCert_def)
qed

theorem VerifyEKCert_result_witness:
  "VerifyEKCert demoFS \<lparr>roots = [boltRoot], intermediates = []\<rparr> [48, 2]
     = Returned \<lparr>Succeeded = True, ChainVerified = True,
                 Chain = [\<lparr>IssuerCn = ''Bolt Root CA'', IssuerOrg = ''Bolt Inc'', Serial = ''4660''\<rparr>,
                          \<lparr>IssuerCn = ''Bolt Root CA'', IssuerOrg = ''Bolt Inc'', Serial = ''7''\<rparr>],
                 VerificationError = []\<rparr>
   \<and> VerifyEKCert demoFS \<lparr>roots = [boltRoot], intermediates = []\<rparr> [48, 3]
     = Returned \<lparr>Succeeded = False, ChainVerified = False, Chain = [],
                 VerificationError = ''x509: certificate signed by unknown authority''\<rparr>"
proof -
  let ?v = "\<lparr>roots = [boltRoot], intermediates = []\<rparr>"
  have p1: "ParseCertificate demoFS [48, 2]
              = (Some boltEK, Some (NonFatalErrors ''x509: unhandled critical extension''))"
    and p2: "ParseCertificate demoFS [48, 3] = (Some strayEK, None)"
    by (simp_all add: demoFS_def)
  have f1: "\<not> fatalParse (Some (NonFatalErrors ''x509: unhandled critical extension''))"
    and f2: "\<not> fatalParse None"
    by simp_all
  have v1: "Verify demoFS (boltEK\<lparr>UnhandledCriticalExtensions := []\<rparr>)
              \<lparr>Roots = roots ?v, Intermediates = intermediates ?v, KeyUsages = [ExtKeyUsageAny]\<rparr>
            = ([[boltEK\<lparr>UnhandledCriticalExtensions := []\<rparr>, boltRoot]], None)"
    by (simp add: demoFS_def boltEK_def)
  have v2: "Verify demoFS (strayEK\<lparr>UnhandledCriticalExtensions := []\<rparr>)
              \<lparr>Roots = roots ?v, Intermediates = intermediates ?v, KeyUsages = [ExtKeyUsageAny]\<rparr>
            = ([], Some ''x509: certificate signed by unknown authority'')"
    by (simp add: demoFS_def strayEK_def)
  have c1: "(None :: goerror option) = None \<longrightarrow>
              [[boltEK\<lparr>UnhandledCriticalExtensions := []\<rparr>, boltRoot]] \<noteq> []"
    and c2: "Some ''x509: certificate signed by unknown authority'' = None \<longrightarrow>
              ([] :: Certificate list list) \<noteq> []"
    by simp_all
  note t1 = VerifyEKCert_result[OF p1 f1 v1 c1]
  note t2 = VerifyEKCert_result[OF p2 f2 v2 c2]
  have s: "map (\<lambda>cert. \<lparr>IssuerCn = CommonName (Issuer cert),
                        IssuerOrg = stringsJoin (Organization (Issuer cert)) '' '',
                        Serial = bigIntString (SerialNumber cert)\<rparr>)
             [boltEK\<lparr>UnhandledCriticalExtensions := []\<rparr>, boltRoot]
           = [\<lparr>IssuerCn = ''Bolt Root CA'', IssuerOrg = ''Bolt Inc'', Serial = ''4660''\<rparr>,
              \<lparr>IssuerCn = ''Bolt Root CA'', IssuerOrg = ''Bolt Inc'', Serial = ''7''\<rparr>]"
    by (simp add: boltEK_def boltRoot_def bigIntString_def decimalDigits.simps)
  show ?thesis
    using t1 t2 s by (auto split: result.splits)
qed

text \<open>
  The hypotheses of the theorem are met whenever a result record is returned, so it
  speaks of every result record. A parse that yields no certificate returns none: it
  panics at the write to \<^verbatim>\<open>UnhandledCriticalExtensions\<close>, before the error is looked at.
\<close>

lemma VerifyEKCert_Returned:
  assumes "VerifyEKCert lib v certBytes = Returned out"
  shows "\<exists>c perr certChains verificationErr.
           ParseCertificate lib certBytes = (Some c, perr) \<and> \<not> fatalParse perr
           \<and> Verify lib (c\<lparr>UnhandledCriticalExtensions := []\<rparr>)
                \<lparr>Roots = roots v, Intermediates = intermediates v,
                 KeyUsages = [ExtKeyUsageAny]\<rparr> = (certChains, verificationErr)
           \<and> (verificationErr = None \<longrightarrow> certChains \<noteq> [])"
  using assms
  by (auto simp: VerifyEKCert_def split: prod.splits option.splits if_splits list.splits)

lemma VerifyEKCert_nil_certificate:
  "ParseCertificate lib certBytes = (None, perr) \<Longrightarrow> VerifyEKCert lib v certBytes = Panicked"
  by (simp add: VerifyEKCert_def)

end
